theory Spec2Isabelle
  imports Complex_Main
begin

section \<open>Python values and exceptions\<close>

text \<open>
  The two estimators of torch-molecule modelled here are
  \<^verbatim>\<open>GraphDITMolecularGenerator\<close> (generator/graph_dit/modeling_graph_dit.py) and
  \<^verbatim>\<open>ContextPredMolecularEncoder\<close> (encoder/contextpred/modeling_contextpred.py).
  Every \<^verbatim>\<open>raise\<close>, failed \<^verbatim>\<open>assert\<close> and implicit Python exception of a modelled
  function is a value \<open>Inl e\<close> of the result type \<open>py_error + 'a\<close>.
\<close>

datatype py_error =
    ValueError string
  | KeyError string
  | NameError string
  | UnboundLocalError string
  | AttributeError string
  | TypeError string
  | RuntimeError string
  | IndexError string
  | AssertionError

text \<open>
  Plain Python data, as a checkpoint's \<^verbatim>\<open>hyperparameters\<close> mapping holds it. A \<^verbatim>\<open>dict\<close>
  with string keys is an association list; \<open>map_of\<close> is the lookup.
\<close>

datatype pyval =
    PNone
  | PBool bool
  | PInt int
  | PFloat real
  | PStr string
  | PList "pyval list"
  | PDict "(string \<times> pyval) list"

type_synonym pydict = "(string \<times> pyval) list"

text \<open>\<^verbatim>\<open>d[k]\<close> on an arbitrary value with a string key \<open>k\<close>.\<close>

fun subscript :: "pyval \<Rightarrow> string \<Rightarrow> py_error + pyval" where
  "subscript (PDict d) k = (case map_of d k of None \<Rightarrow> Inl (KeyError k) | Some v \<Rightarrow> Inr v)"
| "subscript _ k = Inl (TypeError ''subscript'')"

text \<open>\<^verbatim>\<open>d.get(k, default)\<close>; only a \<^verbatim>\<open>dict\<close> has the method.\<close>

fun dict_get :: "pyval \<Rightarrow> string \<Rightarrow> pyval \<Rightarrow> py_error + pyval" where
  "dict_get (PDict d) k dflt = (case map_of d k of None \<Rightarrow> Inr dflt | Some v \<Rightarrow> Inr v)"
| "dict_get _ k dflt = Inl (AttributeError ''get'')"

text \<open>
  A dict comprehension \<^verbatim>\<open>{k: f(k) for k in keys}\<close> whose body may raise: the keys are
  visited in order and the first exception ends the comprehension.
\<close>

fun dict_comprehension :: "(string \<Rightarrow> py_error + pyval) \<Rightarrow> string list \<Rightarrow> py_error + pydict" where
  "dict_comprehension f [] = Inr []"
| "dict_comprehension f (k # ks) =
     (case f k of
        Inl e \<Rightarrow> Inl e
      | Inr v \<Rightarrow> (case dict_comprehension f ks of
                   Inl e \<Rightarrow> Inl e
                 | Inr d \<Rightarrow> Inr ((k, v) # d)))"

definition from_option :: "('a \<Rightarrow> pyval) \<Rightarrow> 'a option \<Rightarrow> pyval" where
  "from_option f v = (case v of None \<Rightarrow> PNone | Some a \<Rightarrow> f a)"

section \<open>Floats and numpy's mean\<close>

text \<open>
  A Python float, as \<^verbatim>\<open>loss.item()\<close> and \<^verbatim>\<open>np.mean\<close> return it: a finite value, an
  infinity or NaN. Finite values are idealised as reals (no rounding, no overflow).
\<close>

datatype pyfloat = Finite real | PosInf | NegInf | NaN

fun is_finite :: "pyfloat \<Rightarrow> bool" where
  "is_finite (Finite x) = True"
| "is_finite _ = False"

fun finite_value :: "pyfloat \<Rightarrow> real" where
  "finite_value (Finite x) = x"
| "finite_value _ = 0"

text \<open>
  \<^verbatim>\<open>np.mean\<close> of a list of floats: NaN on the empty list (numpy warns and returns nan), the
  arithmetic mean of finite entries, and the IEEE result when an entry is not finite.
\<close>

definition np_mean :: "pyfloat list \<Rightarrow> pyfloat" where
  "np_mean xs =
     (if xs = [] then NaN
      else if list_all is_finite xs
        then Finite (sum_list (map finite_value xs) / real (length xs))
      else if NaN \<in> set xs \<or> (PosInf \<in> set xs \<and> NegInf \<in> set xs) then NaN
      else if PosInf \<in> set xs then PosInf
      else NegInf)"

section \<open>Fields of the two estimators\<close>

text \<open>
  Both dataclasses declare the same model-size, training and scheduler fields and the same
  non-init fields (\<^verbatim>\<open>fitting_loss\<close>, \<^verbatim>\<open>fitting_epoch\<close>; \<^verbatim>\<open>is_fitted_\<close> is set by
  \<^verbatim>\<open>fit\<close>). They are the common part of the two records. \<^verbatim>\<open>Optional[...]\<close> fields are
  options.
\<close>

record estimator =
  num_layer :: int
  hidden_size :: int
  batch_size :: int
  epochs :: int
  learning_rate :: real
  grad_clip_value :: "real option"
  weight_decay :: real
  use_lr_scheduler :: bool
  scheduler_factor :: real
  scheduler_patience :: int
  fitting_loss :: "pyfloat list"
  fitting_epoch :: int
  is_fitted :: bool

text \<open>The remaining fields of \<^verbatim>\<open>ContextPredMolecularEncoder\<close>.\<close>

record ContextPred = estimator +
  num_task :: "int option"
  drop_ratio :: real
  norm_layer :: string
  encoder_type :: string
  readout :: string
  mode :: string
  csize :: int
  neg_samples :: int

section \<open>Model parameters from a checkpoint: the encoder\<close>

definition missing_hyperparameters :: py_error where
  "missing_hyperparameters = ValueError ''Checkpoint missing 'hyperparameters' key''"

text \<open>
  \<^verbatim>\<open>ContextPredMolecularEncoder._get_model_params\<close> (lines 113-144). The ten
  \<^verbatim>\<open>hyperparameters.get(name, self.name)\<close> entries of the returned literal are evaluated in
  the order written.
\<close>

definition ContextPred_defaults :: "'a ContextPred_scheme \<Rightarrow> pydict" where
  "ContextPred_defaults self =
     [(''num_layer'', PInt (num_layer self)),
      (''hidden_size'', PInt (hidden_size self)),
      (''num_task'', from_option PInt (num_task self)),
      (''drop_ratio'', PFloat (drop_ratio self)),
      (''norm_layer'', PStr (norm_layer self)),
      (''readout'', PStr (readout self)),
      (''encoder_type'', PStr (encoder_type self)),
      (''mode'', PStr (mode self)),
      (''csize'', PInt (csize self)),
      (''neg_samples'', PInt (neg_samples self))]"

fun get_each :: "pyval \<Rightarrow> pydict \<Rightarrow> py_error + pydict" where
  "get_each hp [] = Inr []"
| "get_each hp ((k, dflt) # rest) =
     (case dict_get hp k dflt of
        Inl e \<Rightarrow> Inl e
      | Inr v \<Rightarrow> (case get_each hp rest of
                   Inl e \<Rightarrow> Inl e
                 | Inr d \<Rightarrow> Inr ((k, v) # d)))"

definition ContextPred_get_model_params ::
  "'a ContextPred_scheme \<Rightarrow> pydict option \<Rightarrow> py_error + pydict" where
  "ContextPred_get_model_params self checkpoint =
     (case checkpoint of
        Some ckpt \<Rightarrow>
          (case map_of ckpt ''hyperparameters'' of
             None \<Rightarrow> Inl missing_hyperparameters
           | Some hp \<Rightarrow> get_each hp (ContextPred_defaults self))
      | None \<Rightarrow>
          Inr [(''num_layer'', PInt (num_layer self)),
               (''hidden_size'', PInt (hidden_size self)),
               (''num_task'', from_option PInt (num_task self)),
               (''encoder_type'', PStr (encoder_type self)),
               (''drop_ratio'', PFloat (drop_ratio self)),
               (''norm_layer'', PStr (norm_layer self)),
               (''readout'', PStr (readout self)),
               (''mode'', PStr (mode self)),
               (''csize'', PInt (csize self)),
               (''neg_samples'', PInt (neg_samples self))])"

section \<open>Training: the encoder\<close>

text \<open>
  \<^verbatim>\<open>_setup_optimizers\<close> (both classes, same text): an Adam optimizer whose parameter
  groups get \<^verbatim>\<open>max_norm\<close> and \<^verbatim>\<open>norm_type\<close> entries when \<^verbatim>\<open>grad_clip_value\<close> is set, and a
  \<^verbatim>\<open>ReduceLROnPlateau\<close> scheduler when \<^verbatim>\<open>use_lr_scheduler\<close> is set.
\<close>

record optimizer =
  lr :: real
  opt_weight_decay :: real
  max_norm :: "real option"
  norm_type :: "real option"

record scheduler =
  factor :: real
  patience :: int
  min_lr :: real

definition setup_optimizers :: "'a estimator_scheme \<Rightarrow> optimizer \<times> scheduler option" where
  "setup_optimizers self =
     (let optimizer = \<lparr>lr = learning_rate self, opt_weight_decay = weight_decay self,
                        max_norm = None, norm_type = None\<rparr>;
          optimizer = (case grad_clip_value self of
                         Some c \<Rightarrow> optimizer\<lparr>max_norm := Some c, norm_type := Some 2\<rparr>
                       | None \<Rightarrow> optimizer);
          scheduler = (if use_lr_scheduler self
                       then Some \<lparr>factor = scheduler_factor self,
                                  patience = scheduler_patience self,
                                  min_lr = 1 / 1000000\<rparr>
                       else None)
      in (optimizer, scheduler))"

text \<open>
  What the training code calls but the repository's files do not contain (torch, the
  network, the base class, the data loader) is a record of functions over a state \<open>'w\<close>:
  the network's parameters and gradients, the optimizer's moments and the random number
  generator. A call that only reads is a function of \<open>'w\<close>; a call that writes returns the
  new state. Each of them is taken to return.
\<close>

record ('w, 'b, 'd) training_ext =
  initialize_model :: "'w \<Rightarrow> py_error + 'w"
  iterate_loader :: "'d \<Rightarrow> 'w \<Rightarrow> 'b list \<times> 'w"
  train_mode :: "'w \<Rightarrow> 'w"
  zero_grad :: "'w \<Rightarrow> 'w"
  backward :: "'w \<Rightarrow> 'w"
  clip_grad_norm :: "real \<Rightarrow> 'w \<Rightarrow> 'w"
  optimizer_step :: "optimizer \<Rightarrow> 'w \<Rightarrow> 'w"
  scheduler_step :: "scheduler \<Rightarrow> pyfloat \<Rightarrow> 'w \<Rightarrow> 'w"

text \<open>
  For the encoder: \<^verbatim>\<open>_validate_inputs\<close>, \<^verbatim>\<open>_convert_to_pytorch_data\<close> and the
  \<^verbatim>\<open>DataLoader\<close> constructor make the dataset; \<^verbatim>\<open>self.model.compute_loss(batch)\<close> gives the
  loss, whose \<^verbatim>\<open>item()\<close> is the float.
\<close>

record ('w, 'b, 'd) ContextPred_ext = "('w, 'b, 'd) training_ext" +
  make_dataset :: "string list \<Rightarrow> py_error + 'd"
  compute_loss :: "'b \<Rightarrow> 'w \<Rightarrow> pyfloat \<times> 'w"

text \<open>
  The body of the batch loop of \<^verbatim>\<open>ContextPredMolecularEncoder._train_epoch\<close>
  (lines 262-270), with the list \<^verbatim>\<open>losses\<close> as an accumulator.
\<close>

fun ContextPred_train_batches ::
  "('w, 'b, 'd, 'x) ContextPred_ext_scheme \<Rightarrow> 'a ContextPred_scheme \<Rightarrow> optimizer \<Rightarrow> 'b list \<Rightarrow>
   pyfloat list \<Rightarrow> 'w \<Rightarrow> pyfloat list \<times> 'w" where
  "ContextPred_train_batches ext self opt [] losses w = (losses, w)"
| "ContextPred_train_batches ext self opt (batch # rest) losses w =
     (let w = zero_grad ext w;
          (loss, w) = compute_loss ext batch w;
          w = backward ext w;
          w = (case grad_clip_value self of
                 Some c \<Rightarrow> clip_grad_norm ext c w
               | None \<Rightarrow> w);
          w = optimizer_step ext opt w
      in ContextPred_train_batches ext self opt rest (losses @ [loss]) w)"

definition ContextPred_train_epoch ::
  "('w, 'b, 'd, 'x) ContextPred_ext_scheme \<Rightarrow> 'a ContextPred_scheme \<Rightarrow> optimizer \<Rightarrow> 'b list \<Rightarrow>
   'w \<Rightarrow> pyfloat list \<times> 'w" where
  "ContextPred_train_epoch ext self opt train_loader w =
     ContextPred_train_batches ext self opt train_loader [] (train_mode ext w)"

text \<open>
  One pass of the epoch loop of \<^verbatim>\<open>fit\<close> (lines 232-237): the loader is iterated (it
  reshuffles), the epoch is trained, and the scheduler, when there is one, steps on the
  epoch's mean loss. It returns the epoch's per-batch losses.
\<close>

definition ContextPred_epoch ::
  "('w, 'b, 'd, 'x) ContextPred_ext_scheme \<Rightarrow> 'a ContextPred_scheme \<Rightarrow> optimizer \<Rightarrow> scheduler option \<Rightarrow>
   'd \<Rightarrow> 'w \<Rightarrow> pyfloat list \<times> 'w" where
  "ContextPred_epoch ext self opt sched dataset w =
     (let (train_loader, w) = iterate_loader ext dataset w;
          (train_losses, w) = ContextPred_train_epoch ext self opt train_loader w;
          w = (case sched of
                 Some s \<Rightarrow> scheduler_step ext s (np_mean train_losses) w
               | None \<Rightarrow> w)
      in (train_losses, w))"

text \<open>
  \<^verbatim>\<open>for epoch in range(self.epochs)\<close>: the hyperparameters the loop body reads stay those
  of \<open>self\<close>; \<open>history\<close> is \<^verbatim>\<open>self.fitting_loss\<close>.
\<close>

fun ContextPred_fit_loop ::
  "('w, 'b, 'd, 'x) ContextPred_ext_scheme \<Rightarrow> 'a ContextPred_scheme \<Rightarrow> optimizer \<Rightarrow> scheduler option \<Rightarrow>
   'd \<Rightarrow> nat list \<Rightarrow> pyfloat list \<Rightarrow> 'w \<Rightarrow> pyfloat list \<times> 'w" where
  "ContextPred_fit_loop ext self opt sched dataset [] history w = (history, w)"
| "ContextPred_fit_loop ext self opt sched dataset (epoch # rest) history w =
     (let (train_losses, w) = ContextPred_epoch ext self opt sched dataset w
      in ContextPred_fit_loop ext self opt sched dataset rest
           (history @ [np_mean train_losses]) w)"

text \<open>
  \<^verbatim>\<open>ContextPredMolecularEncoder.fit\<close> (lines 201-241). After the loop,
  \<^verbatim>\<open>self.fitting_epoch = epoch\<close> reads the loop variable, which is unbound when the loop
  body never ran.
\<close>

definition ContextPred_fit ::
  "('w, 'b, 'd, 'x) ContextPred_ext_scheme \<Rightarrow> 'a ContextPred_scheme \<Rightarrow> string list \<Rightarrow> 'w \<Rightarrow>
   py_error + ('a ContextPred_scheme \<times> 'w)" where
  "ContextPred_fit ext self X_train w =
     (case initialize_model ext w of
        Inl e \<Rightarrow> Inl e
      | Inr w \<Rightarrow>
          (let (opt, sched) = setup_optimizers self in
           case make_dataset ext X_train of
             Inl e \<Rightarrow> Inl e
           | Inr dataset \<Rightarrow>
               (let (history, w) =
                      ContextPred_fit_loop ext self opt sched dataset
                        [0 ..< nat (epochs self)] [] w
                in if epochs self \<le> 0 then Inl (UnboundLocalError ''epoch'')
                   else Inr (self\<lparr>fitting_loss := history,
                                   fitting_epoch := epochs self - 1,
                                   is_fitted := True\<rparr>, w))))"

text \<open>
  The state in which the \<open>i\<close>-th epoch of a \<^verbatim>\<open>fit\<close> starts, and the per-batch losses
  that epoch's \<^verbatim>\<open>_train_epoch\<close> returns.
\<close>

fun ContextPred_state_at ::
  "('w, 'b, 'd, 'x) ContextPred_ext_scheme \<Rightarrow> 'a ContextPred_scheme \<Rightarrow> optimizer \<Rightarrow> scheduler option \<Rightarrow>
   'd \<Rightarrow> 'w \<Rightarrow> nat \<Rightarrow> 'w" where
  "ContextPred_state_at ext self opt sched dataset w 0 = w"
| "ContextPred_state_at ext self opt sched dataset w (Suc i) =
     ContextPred_state_at ext self opt sched dataset
       (snd (ContextPred_epoch ext self opt sched dataset w)) i"

definition ContextPred_epoch_losses ::
  "('w, 'b, 'd, 'x) ContextPred_ext_scheme \<Rightarrow> 'a ContextPred_scheme \<Rightarrow> optimizer \<Rightarrow> scheduler option \<Rightarrow>
   'd \<Rightarrow> 'w \<Rightarrow> nat \<Rightarrow> pyfloat list" where
  "ContextPred_epoch_losses ext self opt sched dataset w i =
     fst (ContextPred_epoch ext self opt sched dataset
            (ContextPred_state_at ext self opt sched dataset w i))"

text \<open>
  The per-batch losses of the \<open>i\<close>-th epoch of \<^verbatim>\<open>fit\<close> on given training data;
  \<open>None\<close> when \<^verbatim>\<open>fit\<close> raises before its loop.
\<close>

definition ContextPred_fit_epoch_losses ::
  "('w, 'b, 'd, 'x) ContextPred_ext_scheme \<Rightarrow> 'a ContextPred_scheme \<Rightarrow> string list \<Rightarrow> 'w \<Rightarrow>
   nat \<Rightarrow> pyfloat list option" where
  "ContextPred_fit_epoch_losses ext self X_train w i =
     (case initialize_model ext w of
        Inl e \<Rightarrow> None
      | Inr w \<Rightarrow>
          (let (opt, sched) = setup_optimizers self in
           case make_dataset ext X_train of
             Inl e \<Rightarrow> None
           | Inr dataset \<Rightarrow> Some (ContextPred_epoch_losses ext self opt sched dataset w i)))"

section \<open>Tensors\<close>

text \<open>
  A tensor is a nested list of reals, outermost axis first: \<open>tensor3\<close> is
  (batch, nodes, classes) and \<open>tensor4\<close> is (batch, nodes, nodes, classes). A
  (batch, 1) tensor is the list of its batch entries. Arithmetic is over the reals: rounding
  is not modelled, and a division by zero, which in torch gives inf or nan without raising,
  has no faithful value here (HOL makes it 0).
\<close>

type_synonym tensor1 = "real list"
type_synonym tensor2 = "real list list"
type_synonym tensor3 = "real list list list"
type_synonym tensor4 = "real list list list list"
type_synonym node_mask = "bool list list"

datatype device = CPU | CUDA nat

text \<open>\<^verbatim>\<open>PlaceHolder(X=..., E=..., y=...)\<close> of the absent utils module: three named slots.\<close>

datatype ('x, 'e, 'y) PlaceHolder = PlaceHolder (ph_X: 'x) (ph_E: 'e) (ph_y: 'y)

text \<open>\<^verbatim>\<open>t[idx]\<close> with a list of indices, which raises when an index is out of range.\<close>

definition index_select :: "nat list \<Rightarrow> 'a list \<Rightarrow> py_error + 'a list" where
  "index_select idx t =
     (if list_all (\<lambda>i. i < length t) idx then Inr (map (\<lambda>i. t ! i) idx)
      else Inl (IndexError ''index out of range''))"

text \<open>\<^verbatim>\<open>t[:, idx]\<close>: the same selection inside every entry of the first axis.\<close>

fun index_select_dim1 :: "nat list \<Rightarrow> 'a list list \<Rightarrow> py_error + 'a list list" where
  "index_select_dim1 idx [] = Inr []"
| "index_select_dim1 idx (r # rs) =
     (case index_select idx r of
        Inl e \<Rightarrow> Inl e
      | Inr r' \<Rightarrow> (case index_select_dim1 idx rs of
                    Inl e \<Rightarrow> Inl e
                  | Inr rs' \<Rightarrow> Inr (r' # rs')))"

text \<open>\<^verbatim>\<open>v / v.sum()\<close> on a vector, and \<^verbatim>\<open>m / m.sum(dim=-1, keepdim=True)\<close> row by row.\<close>

definition div_by_sum :: "tensor1 \<Rightarrow> tensor1" where
  "div_by_sum v = map (\<lambda>x. x / sum_list v) v"

text \<open>\<^verbatim>\<open>t.sum(dim=1)\<close> of a 3-axis tensor: the entries of the middle axis are added up.\<close>

definition sum_dim1 :: "tensor3 \<Rightarrow> tensor2" where
  "sum_dim1 t = map (\<lambda>m. map sum_list (transpose m)) t"

section \<open>The generator and its diffusion parameters\<close>

text \<open>
  The entries of \<^verbatim>\<open>dataset_info\<close>. \<^verbatim>\<open>_get_diffusion_params\<close> sets every one of them to
  \<^verbatim>\<open>None\<close> for a list of molecules (its TODO), so each is an option. The entry
  \<^verbatim>\<open>atom_decoder\<close> is named \<open>info_atom_decoder\<close> here, apart from the attribute
  \<^verbatim>\<open>self.atom_decoder\<close> that \<^verbatim>\<open>generate\<close> tests.
\<close>

record dataset_info =
  active_index :: "nat list option"
  x_margins :: "tensor1 option"
  e_margins :: "tensor1 option"
  xe_conditions :: "tensor3 option"
  info_atom_decoder :: "string list option"
  node_dist :: "tensor1 option"

text \<open>
  The objects \<^verbatim>\<open>setup_diffusion_params\<close> builds from classes of the absent diffusion
  module are their constructor arguments.
\<close>

datatype transition_model = MarginalTransition tensor1 tensor1 tensor2 tensor2 int int

datatype noise_schedule = NoiseScheduleDiscrete int

type_synonym limit_dist = "(tensor1, tensor1, unit) PlaceHolder"

text \<open>
  \<^verbatim>\<open>GraphDITMolecularGenerator\<close>: the dataclass fields, and the attributes that methods
  assign later. For the latter, \<open>None\<close> is an attribute that is absent or \<^verbatim>\<open>None\<close>; for
  \<open>dataset_info\<close>, \<open>None\<close> is the dataclass default, the empty dict.
\<close>

record GraphDIT = estimator +
  max_node :: int
  num_head :: int
  mlp_ratio :: real
  dropout :: real
  drop_condition :: real
  X_dim :: int
  E_dim :: int
  y_dim :: int
  task_type :: "string list"
  timesteps :: int
  guide_scale :: "real option"
  dataset_info :: "dataset_info option"
  transition_model :: "transition_model option"
  limit_dist :: "limit_dist option"
  noise_schedule :: "noise_schedule option"
  atom_decoder :: "string list option"

text \<open>\<^verbatim>\<open>getattr(self, k)\<close> for the names of \<^verbatim>\<open>params\<close> in \<^verbatim>\<open>_get_model_params\<close>.\<close>

definition GraphDIT_getattr :: "'a GraphDIT_scheme \<Rightarrow> string \<Rightarrow> py_error + pyval" where
  "GraphDIT_getattr self k =
     (if k = ''max_node'' then Inr (PInt (max_node self))
      else if k = ''hidden_size'' then Inr (PInt (hidden_size self))
      else if k = ''num_layer'' then Inr (PInt (num_layer self))
      else if k = ''num_head'' then Inr (PInt (num_head self))
      else if k = ''mlp_ratio'' then Inr (PFloat (mlp_ratio self))
      else if k = ''dropout'' then Inr (PFloat (dropout self))
      else if k = ''drop_condition'' then Inr (PFloat (drop_condition self))
      else if k = ''X_dim'' then Inr (PInt (X_dim self))
      else if k = ''E_dim'' then Inr (PInt (E_dim self))
      else if k = ''y_dim'' then Inr (PInt (y_dim self))
      else if k = ''task_type'' then Inr (PList (map PStr (task_type self)))
      else Inl (AttributeError k))"

definition GraphDIT_model_param_names :: "string list" where
  "GraphDIT_model_param_names =
     [''max_node'', ''hidden_size'', ''num_layer'', ''num_head'', ''mlp_ratio'',
      ''dropout'', ''drop_condition'', ''X_dim'', ''E_dim'', ''y_dim'', ''task_type'']"

text \<open>\<^verbatim>\<open>GraphDITMolecularGenerator._get_model_params\<close> (lines 121-130).\<close>

definition GraphDIT_get_model_params ::
  "'a GraphDIT_scheme \<Rightarrow> pydict option \<Rightarrow> py_error + pydict" where
  "GraphDIT_get_model_params self checkpoint =
     (case checkpoint of
        Some ckpt \<Rightarrow>
          (case map_of ckpt ''hyperparameters'' of
             None \<Rightarrow> Inl missing_hyperparameters
           | Some hp \<Rightarrow> dict_comprehension (\<lambda>k. subscript hp k) GraphDIT_model_param_names)
      | None \<Rightarrow> dict_comprehension (GraphDIT_getattr self) GraphDIT_model_param_names)"

text \<open>
  What \<^verbatim>\<open>fit\<close> and \<^verbatim>\<open>setup_diffusion_params\<close> receive as \<^verbatim>\<open>X\<close>
  (\<^verbatim>\<open>Union[List, Dict]\<close>): a list of SMILES strings, or a checkpoint-style dict, of which
  \<^verbatim>\<open>X["hyperparameters"]\<close> with its three entries is read.
\<close>

datatype train_input = Smiles "string list" | Checkpoint dataset_info int int

text \<open>
  \<^verbatim>\<open>_get_diffusion_params\<close> (lines 162-191): it stores \<^verbatim>\<open>self.dataset_info\<close> and returns
  the timesteps, the maximal node count and the dataset_info entries.
\<close>

definition get_diffusion_params ::
  "'a GraphDIT_scheme \<Rightarrow> train_input \<Rightarrow> 'a GraphDIT_scheme \<times> int \<times> int \<times> dataset_info" where
  "get_diffusion_params self X =
     (case X of
        Checkpoint info ts mn \<Rightarrow> (self\<lparr>dataset_info := Some info\<rparr>, ts, mn, info)
      | Smiles _ \<Rightarrow>
          (let info = \<lparr>active_index = None, x_margins = None, e_margins = None,
                       xe_conditions = None, info_atom_decoder = None, node_dist = None\<rparr>
           in (self\<lparr>dataset_info := Some info\<rparr>, timesteps self, max_node self, info)))"

text \<open>
  \<^verbatim>\<open>setup_diffusion_params\<close> (lines 193-208). A marginal that is \<^verbatim>\<open>None\<close> has no
  \<^verbatim>\<open>sum\<close>, a table that is \<^verbatim>\<open>None\<close> cannot be indexed, and indexing a tensor with
  \<^verbatim>\<open>None\<close> adds an axis, which \<^verbatim>\<open>t()\<close> then refuses. The attributes assigned are \<^verbatim>\<open>timesteps\<close>,
  \<^verbatim>\<open>max_node\<close>, \<^verbatim>\<open>transition_model\<close>, \<^verbatim>\<open>limit_dist\<close> and \<^verbatim>\<open>noise_schedule\<close>, besides
  \<^verbatim>\<open>dataset_info\<close>: nothing assigns \<^verbatim>\<open>self.atom_decoder\<close>.
\<close>

definition setup_diffusion_params ::
  "'a GraphDIT_scheme \<Rightarrow> train_input \<Rightarrow> py_error + 'a GraphDIT_scheme" where
  "setup_diffusion_params self X =
     (let (self, ts, mn, info) = get_diffusion_params self X;
          self = self\<lparr>timesteps := ts, max_node := mn\<rparr>
      in case x_margins info of
           None \<Rightarrow> Inl (AttributeError ''sum'')
         | Some xm \<Rightarrow>
        (let x_limit = div_by_sum xm in
         case e_margins info of
           None \<Rightarrow> Inl (AttributeError ''sum'')
         | Some em \<Rightarrow>
        (let e_limit = div_by_sum em in
         case xe_conditions info of
           None \<Rightarrow> Inl (TypeError ''subscript'')
         | Some xe \<Rightarrow>
        (case active_index info of
           None \<Rightarrow> Inl (RuntimeError ''t() expects a tensor with <= 2 dimensions'')
         | Some idx \<Rightarrow>
        (case index_select idx xe of
           Inl e \<Rightarrow> Inl e
         | Inr xe1 \<Rightarrow>
        (case index_select_dim1 idx xe1 of
           Inl e \<Rightarrow> Inl e
         | Inr xe2 \<Rightarrow>
        (let xe_sum = sum_dim1 xe2;
             ex_sum = transpose xe_sum;
             xe_cond = map div_by_sum xe_sum;
             ex_cond = map div_by_sum ex_sum
         in Inr (self\<lparr>
              transition_model :=
                Some (MarginalTransition x_limit e_limit xe_cond ex_cond (y_dim self)
                        (max_node self)),
              limit_dist := Some (PlaceHolder x_limit e_limit ()),
              noise_schedule := Some (NoiseScheduleDiscrete (timesteps self))\<rparr>))))))))"

section \<open>Forward noising\<close>

text \<open>
  What the generator calls but the repository's files do not contain: torch's random
  integers, the noise schedule, the transition model, the network, the samplers and
  \<^verbatim>\<open>PlaceHolder.mask\<close>. As for the encoder, \<open>'w\<close> is the state those calls read and write
  (parameters, gradients, optimizer, random number generator), and each call is taken to
  return. \<open>corrupt\<close> stands for lines 325-339 of \<^verbatim>\<open>apply_noise\<close>: the projection through
  \<^verbatim>\<open>get_Qt_bar\<close>, \<^verbatim>\<open>sample_discrete_features\<close>, the one-hot encoding, the shape assertion
  and the mask; it can fail.
\<close>

type_synonym sample = "(tensor3, tensor4, tensor2) PlaceHolder"
type_synonym collapsed = "(int list list, int list list list, tensor2) PlaceHolder"

text \<open>The dict \<^verbatim>\<open>noisy_data\<close> that \<^verbatim>\<open>apply_noise\<close> returns.\<close>

record noisy_batch =
  t_int :: tensor1
  t_float :: tensor1
  beta_t :: tensor1
  alpha_s_bar :: tensor1
  alpha_t_bar :: tensor1
  X_t :: tensor3
  E_t :: tensor4
  y_t :: tensor2
  batch_node_mask :: node_mask

text \<open>The dict \<^verbatim>\<open>noisy_data\<close> that \<^verbatim>\<open>sample_p_zs_given_zt\<close> hands to the network.\<close>

record noisy_data =
  nd_X_t :: tensor3
  nd_E_t :: tensor4
  nd_y_t :: tensor2
  nd_t :: tensor1
  nd_node_mask :: node_mask

record ('w, 'b, 'd) GraphDIT_ext = "('w, 'b, 'd) training_ext" +
  make_labelled_dataset :: "train_input \<Rightarrow> tensor2 option \<Rightarrow> py_error + 'd"
  to_dense :: "nat list option \<Rightarrow> 'b \<Rightarrow> tensor3 \<times> tensor4 \<times> tensor2 \<times> node_mask"
  randint :: "int \<Rightarrow> int \<Rightarrow> nat \<Rightarrow> 'w \<Rightarrow> int list \<times> 'w"
  noise_schedule_call :: "noise_schedule \<Rightarrow> tensor1 \<Rightarrow> tensor1"
  get_alpha_bar :: "noise_schedule \<Rightarrow> tensor1 \<Rightarrow> tensor1"
  corrupt :: "transition_model \<Rightarrow> tensor1 \<Rightarrow> tensor3 \<Rightarrow> tensor4 \<Rightarrow> tensor2 \<Rightarrow> node_mask \<Rightarrow>
              'w \<Rightarrow> py_error + (sample \<times> 'w)"
  compute_diffusion_loss :: "noisy_batch \<Rightarrow> tensor3 \<Rightarrow> tensor4 \<Rightarrow> 'w \<Rightarrow> pyfloat \<times> 'w"
  sample_n :: "tensor1 \<Rightarrow> nat \<Rightarrow> 'w \<Rightarrow> int list \<times> 'w"
  sample_discrete_feature_noise :: "limit_dist \<Rightarrow> node_mask \<Rightarrow> 'w \<Rightarrow> sample \<times> 'w"
  network :: "noisy_data \<Rightarrow> bool \<Rightarrow> 'w \<Rightarrow> (tensor3 \<times> tensor4) \<times> 'w"
  softmax :: "tensor1 \<Rightarrow> tensor1"
  get_Qt_bar :: "transition_model \<Rightarrow> tensor1 \<Rightarrow> device \<Rightarrow> tensor3"
  get_Qt :: "transition_model \<Rightarrow> tensor1 \<Rightarrow> device \<Rightarrow> tensor3"
  reverse_diffusion :: "tensor3 \<Rightarrow> tensor3 \<Rightarrow> tensor3 \<Rightarrow> tensor3 \<Rightarrow> tensor3 \<Rightarrow> tensor3"
  sample_discrete_features ::
    "tensor3 \<Rightarrow> tensor4 \<Rightarrow> node_mask \<Rightarrow> 'w \<Rightarrow> (int list list \<times> int list list list) \<times> 'w"
  mask :: "sample \<Rightarrow> node_mask \<Rightarrow> sample"
  mask_collapse :: "sample \<Rightarrow> node_mask \<Rightarrow> collapsed"
  graph_to_smiles :: "(int list \<times> int list list) list \<Rightarrow> string list option \<Rightarrow> string list"

text \<open>
  \<^verbatim>\<open>apply_noise\<close> (lines 313-344). \<^verbatim>\<open>torch.randint(0, self.timesteps + 1, size=(bs, 1))\<close>
  draws one integer per batch entry; \<^verbatim>\<open>float()\<close> makes them reals.
\<close>

definition apply_noise ::
  "('w, 'b, 'd, 'x) GraphDIT_ext_scheme \<Rightarrow> 'a GraphDIT_scheme \<Rightarrow> tensor3 \<Rightarrow> tensor4 \<Rightarrow> tensor2 \<Rightarrow>
   node_mask \<Rightarrow> 'w \<Rightarrow> py_error + (noisy_batch \<times> 'w)" where
  "apply_noise ext self X E y node_mask w =
     (if timesteps self + 1 \<le> 0 then Inl (RuntimeError ''randint: empty range'') else
      let (draw, w) = randint ext 0 (timesteps self + 1) (length X) w;
          t_int = map real_of_int draw;
          s_int = map (\<lambda>t. t - 1) t_int;
          t_float = map (\<lambda>t. t / real_of_int (timesteps self)) t_int;
          s_float = map (\<lambda>s. s / real_of_int (timesteps self)) s_int
      in case noise_schedule self of
           None \<Rightarrow> Inl (AttributeError ''noise_schedule'')
         | Some ns \<Rightarrow>
        (let beta_t = noise_schedule_call ext ns t_float;
             alpha_s_bar = get_alpha_bar ext ns s_float;
             alpha_t_bar = get_alpha_bar ext ns t_float
         in case transition_model self of
              None \<Rightarrow> Inl (AttributeError ''transition_model'')
            | Some tm \<Rightarrow>
           (case corrupt ext tm alpha_t_bar X E y node_mask w of
              Inl e \<Rightarrow> Inl e
            | Inr (z_t, w) \<Rightarrow>
                Inr (\<lparr>t_int = t_int, t_float = t_float, beta_t = beta_t,
                      alpha_s_bar = alpha_s_bar, alpha_t_bar = alpha_t_bar,
                      X_t = ph_X z_t, E_t = ph_E z_t, y_t = ph_y z_t,
                      batch_node_mask = node_mask\<rparr>, w))))"

text \<open>
  The timesteps that \<^verbatim>\<open>apply_noise\<close> hands to the noise schedule for a given draw: the
  normalised \<open>t\<close> and the normalised \<open>s\<close>.
\<close>

definition normalized_t :: "int \<Rightarrow> int \<Rightarrow> real" where
  "normalized_t T t = real_of_int t / real_of_int T"

definition normalized_s :: "int \<Rightarrow> int \<Rightarrow> real" where
  "normalized_s T t = (real_of_int t - 1) / real_of_int T"

text \<open>
  The contract of \<^verbatim>\<open>torch.randint(low, high, size)\<close>: as many integers as asked for, each
  in the half-open range from \<open>low\<close> to \<open>high\<close>.
\<close>

definition randint_contract :: "('w, 'b, 'd, 'x) GraphDIT_ext_scheme \<Rightarrow> bool" where
  "randint_contract ext =
     (\<forall>low high k w. low < high \<longrightarrow>
        length (fst (randint ext low high k w)) = k
        \<and> list_all (\<lambda>v. low \<le> v \<and> v < high) (fst (randint ext low high k w)))"

text \<open>The integers that \<^verbatim>\<open>torch.randint\<close> draws in line 314.\<close>

definition timestep_draw ::
  "('w, 'b, 'd, 'x) GraphDIT_ext_scheme \<Rightarrow> 'a GraphDIT_scheme \<Rightarrow> tensor3 \<Rightarrow> 'w \<Rightarrow> int list" where
  "timestep_draw ext self X w = fst (randint ext 0 (timesteps self + 1) (length X) w)"

section \<open>Training: the generator\<close>

text \<open>
  The body of the batch loop of \<^verbatim>\<open>GraphDITMolecularGenerator._train_epoch\<close>
  (lines 291-306). \<open>to_dense\<close> stands for lines 292 and 295-299. There is no call of
  \<^verbatim>\<open>clip_grad_norm_\<close> between \<^verbatim>\<open>loss.backward()\<close> and \<^verbatim>\<open>optimizer.step()\<close>.
\<close>

fun GraphDIT_train_batches ::
  "('w, 'b, 'd, 'x) GraphDIT_ext_scheme \<Rightarrow> 'a GraphDIT_scheme \<Rightarrow> optimizer \<Rightarrow> nat list option \<Rightarrow>
   'b list \<Rightarrow> pyfloat list \<Rightarrow> 'w \<Rightarrow> py_error + (pyfloat list \<times> 'w)" where
  "GraphDIT_train_batches ext self opt idx [] losses w = Inr (losses, w)"
| "GraphDIT_train_batches ext self opt idx (batched_data # rest) losses w =
     (let w = zero_grad ext w;
          (X, E, y, node_mask) = to_dense ext idx batched_data
      in case apply_noise ext self X E y node_mask w of
           Inl e \<Rightarrow> Inl e
         | Inr (noisy, w) \<Rightarrow>
             (let (loss, w) = compute_diffusion_loss ext noisy X E w;
                  w = backward ext w;
                  w = optimizer_step ext opt w
              in GraphDIT_train_batches ext self opt idx rest (losses @ [loss]) w))"

definition GraphDIT_train_epoch ::
  "('w, 'b, 'd, 'x) GraphDIT_ext_scheme \<Rightarrow> 'a GraphDIT_scheme \<Rightarrow> optimizer \<Rightarrow> 'b list \<Rightarrow>
   'w \<Rightarrow> py_error + (pyfloat list \<times> 'w)" where
  "GraphDIT_train_epoch ext self opt train_loader w =
     (let w = train_mode ext w in
      case dataset_info self of
        None \<Rightarrow> Inl (KeyError ''active_index'')
      | Some info \<Rightarrow>
          GraphDIT_train_batches ext self opt (active_index info) train_loader [] w)"

text \<open>One pass of the epoch loop of \<^verbatim>\<open>fit\<close> (lines 272-276).\<close>

definition GraphDIT_epoch ::
  "('w, 'b, 'd, 'x) GraphDIT_ext_scheme \<Rightarrow> 'a GraphDIT_scheme \<Rightarrow> optimizer \<Rightarrow>
   scheduler option \<Rightarrow> 'd \<Rightarrow> 'w \<Rightarrow> py_error + (pyfloat list \<times> 'w)" where
  "GraphDIT_epoch ext self opt sched dataset w =
     (let (train_loader, w) = iterate_loader ext dataset w
      in case GraphDIT_train_epoch ext self opt train_loader w of
           Inl e \<Rightarrow> Inl e
         | Inr (train_losses, w) \<Rightarrow>
             Inr (train_losses,
                  (case sched of
                     Some s \<Rightarrow> scheduler_step ext s (np_mean train_losses) w
                   | None \<Rightarrow> w)))"

fun GraphDIT_fit_loop ::
  "('w, 'b, 'd, 'x) GraphDIT_ext_scheme \<Rightarrow> 'a GraphDIT_scheme \<Rightarrow> optimizer \<Rightarrow>
   scheduler option \<Rightarrow> 'd \<Rightarrow> nat list \<Rightarrow> pyfloat list \<Rightarrow> 'w \<Rightarrow>
   py_error + (pyfloat list \<times> 'w)" where
  "GraphDIT_fit_loop ext self opt sched dataset [] history w = Inr (history, w)"
| "GraphDIT_fit_loop ext self opt sched dataset (epoch # rest) history w =
     (case GraphDIT_epoch ext self opt sched dataset w of
        Inl e \<Rightarrow> Inl e
      | Inr (train_losses, w) \<Rightarrow>
          GraphDIT_fit_loop ext self opt sched dataset rest
            (history @ [np_mean train_losses]) w)"

text \<open>
  \<^verbatim>\<open>GraphDITMolecularGenerator.fit\<close> (lines 251-280). As in the encoder,
  \<^verbatim>\<open>self.fitting_epoch = epoch\<close> needs the loop body to have run.
\<close>

definition GraphDIT_fit ::
  "('w, 'b, 'd, 'x) GraphDIT_ext_scheme \<Rightarrow> 'a GraphDIT_scheme \<Rightarrow> train_input \<Rightarrow>
   tensor2 option \<Rightarrow> 'w \<Rightarrow> py_error + ('a GraphDIT_scheme \<times> 'w)" where
  "GraphDIT_fit ext self X_train y_train w =
     (case initialize_model ext w of
        Inl e \<Rightarrow> Inl e
      | Inr w \<Rightarrow>
     (case setup_diffusion_params self X_train of
        Inl e \<Rightarrow> Inl e
      | Inr self \<Rightarrow>
          (let (opt, sched) = setup_optimizers self in
           case make_labelled_dataset ext X_train y_train of
             Inl e \<Rightarrow> Inl e
           | Inr dataset \<Rightarrow>
               (case GraphDIT_fit_loop ext self opt sched dataset
                       [0 ..< nat (epochs self)] [] w of
                  Inl e \<Rightarrow> Inl e
                | Inr (history, w) \<Rightarrow>
                    if epochs self \<le> 0 then Inl (UnboundLocalError ''epoch'')
                    else Inr (self\<lparr>fitting_loss := history,
                                    fitting_epoch := epochs self - 1,
                                    is_fitted := True\<rparr>, w)))))"

text \<open>
  The per-batch losses of the \<open>i\<close>-th epoch of a generator \<^verbatim>\<open>fit\<close> that starts its loop
  in state \<open>w\<close>; \<open>None\<close> when that epoch or an earlier one raises.
\<close>

fun GraphDIT_epoch_losses ::
  "('w, 'b, 'd, 'x) GraphDIT_ext_scheme \<Rightarrow> 'a GraphDIT_scheme \<Rightarrow> optimizer \<Rightarrow>
   scheduler option \<Rightarrow> 'd \<Rightarrow> 'w \<Rightarrow> nat \<Rightarrow> pyfloat list option" where
  "GraphDIT_epoch_losses ext self opt sched dataset w 0 =
     (case GraphDIT_epoch ext self opt sched dataset w of
        Inl e \<Rightarrow> None
      | Inr (train_losses, w) \<Rightarrow> Some train_losses)"
| "GraphDIT_epoch_losses ext self opt sched dataset w (Suc i) =
     (case GraphDIT_epoch ext self opt sched dataset w of
        Inl e \<Rightarrow> None
      | Inr (train_losses, w) \<Rightarrow> GraphDIT_epoch_losses ext self opt sched dataset w i)"

text \<open>The same for a \<^verbatim>\<open>fit\<close> of the generator on given training data.\<close>

definition GraphDIT_fit_epoch_losses ::
  "('w, 'b, 'd, 'x) GraphDIT_ext_scheme \<Rightarrow> 'a GraphDIT_scheme \<Rightarrow> train_input \<Rightarrow>
   tensor2 option \<Rightarrow> 'w \<Rightarrow> nat \<Rightarrow> pyfloat list option" where
  "GraphDIT_fit_epoch_losses ext self X_train y_train w i =
     (case initialize_model ext w of
        Inl e \<Rightarrow> None
      | Inr w \<Rightarrow>
     (case setup_diffusion_params self X_train of
        Inl e \<Rightarrow> None
      | Inr self \<Rightarrow>
          (let (opt, sched) = setup_optimizers self in
           case make_labelled_dataset ext X_train y_train of
             Inl e \<Rightarrow> None
           | Inr dataset \<Rightarrow> GraphDIT_epoch_losses ext self opt sched dataset w i)))"

section \<open>Reverse sampling\<close>

text \<open>Sequencing of computations that may raise.\<close>

definition and_then :: "py_error + 'a \<Rightarrow> ('a \<Rightarrow> py_error + 'b) \<Rightarrow> py_error + 'b" where
  "and_then r f = (case r of Inl e \<Rightarrow> Inl e | Inr v \<Rightarrow> f v)"

text \<open>
  Shapes of nested lists, read off the first entries as for a rectangular tensor:
  \<^verbatim>\<open>t.shape[1]\<close>, \<^verbatim>\<open>t.shape[2]\<close> and \<^verbatim>\<open>t.shape[3]\<close>.
\<close>

definition size1 :: "'a list list \<Rightarrow> nat" where
  "size1 t = (case t of [] \<Rightarrow> 0 | r # _ \<Rightarrow> length r)"

definition size2 :: "'a list list list \<Rightarrow> nat" where
  "size2 t = (case t of [] \<Rightarrow> 0 | r # _ \<Rightarrow> size1 r)"

definition size3 :: "'a list list list list \<Rightarrow> nat" where
  "size3 t = (case t of [] \<Rightarrow> 0 | r # _ \<Rightarrow> size2 r)"

definition shape3 :: "'a list list list \<Rightarrow> nat list" where
  "shape3 t = [length t, size1 t, size2 t]"

definition shape4 :: "'a list list list list \<Rightarrow> nat list" where
  "shape4 t = [length t, size1 t, size2 t, size3 t]"

text \<open>\<open>m\<close> consecutive pieces of length \<open>k\<close>.\<close>

fun chunks :: "nat \<Rightarrow> nat \<Rightarrow> 'a list \<Rightarrow> 'a list list" where
  "chunks k 0 xs = []"
| "chunks k (Suc m) xs = take k xs # chunks k m (drop k xs)"

text \<open>
  \<^verbatim>\<open>reshape(a, b, -1)\<close> and \<^verbatim>\<open>reshape(a, b, c, d)\<close> of the elements in row-major order.
  The inferred size must exist and be unique; the sizes must multiply to the number of
  elements.
\<close>

definition reshape3 :: "nat \<Rightarrow> nat \<Rightarrow> 'a list \<Rightarrow> py_error + 'a list list list" where
  "reshape3 a b flat =
     (if a * b = 0 \<or> length flat mod (a * b) \<noteq> 0 then Inl (RuntimeError ''reshape'')
      else Inr (chunks b a (chunks (length flat div (a * b)) (a * b) flat)))"

definition reshape4 ::
  "nat \<Rightarrow> nat \<Rightarrow> nat \<Rightarrow> nat \<Rightarrow> 'a list \<Rightarrow> py_error + 'a list list list list" where
  "reshape4 a b c d flat =
     (if length flat \<noteq> a * b * c * d then Inl (RuntimeError ''reshape'')
      else Inr (chunks b a (chunks c (a * b) (chunks d (a * b * c) flat))))"

text \<open>\<^verbatim>\<open>torch.cat([A, B], dim=-1)\<close> of two 3-axis tensors, whose leading sizes must agree.\<close>

definition cat_last :: "tensor3 \<Rightarrow> tensor3 \<Rightarrow> py_error + tensor3" where
  "cat_last A B =
     (if map length A = map length B
      then Inr (map2 (map2 (@)) A B)
      else Inl (RuntimeError ''cat''))"

text \<open>Python's \<^verbatim>\<open>xs[:k]\<close> and \<^verbatim>\<open>xs[k:]\<close>; a negative \<open>k\<close> counts from the end.\<close>

definition slice_to :: "int \<Rightarrow> 'a list \<Rightarrow> 'a list" where
  "slice_to k xs = (if 0 \<le> k then take (nat k) xs else take (length xs - nat (- k)) xs)"

definition slice_from :: "int \<Rightarrow> 'a list \<Rightarrow> 'a list" where
  "slice_from k xs = (if 0 \<le> k then drop (nat k) xs else drop (length xs - nat (- k)) xs)"

text \<open>
  Lines 480-481: \<^verbatim>\<open>u[torch.sum(u, dim=-1) == 0] = 1e-5\<close> writes the floor into every entry
  of each row whose sum is zero.
\<close>

definition floor_value :: real where
  "floor_value = 1 / 100000"

definition floor_zero_row :: "tensor1 \<Rightarrow> tensor1" where
  "floor_zero_row row = (if sum_list row = 0 then map (\<lambda>_. floor_value) row else row)"

text \<open>
  What a global name of the generator's module can be bound to: something imported (lines
  1-16), the class the module defines, or, if a caller has put one there, a tensor on a
  device. \<open>module_globals\<close> are the bindings the module's own text makes. Python looks a
  name that is not local up among the globals and then among the builtins;
  \<^verbatim>\<open>text_embedding\<close> is no builtin.
\<close>

datatype pyobject = Imported string | ClassDefinition | TensorOn device

definition module_globals :: "(string \<times> pyobject) list" where
  "module_globals =
     [(''np'', Imported ''numpy''), (''tqdm'', Imported ''tqdm''),
      (''Optional'', Imported ''typing''), (''Union'', Imported ''typing''),
      (''Dict'', Imported ''typing''), (''Any'', Imported ''typing''),
      (''Tuple'', Imported ''typing''), (''List'', Imported ''typing''),
      (''Type'', Imported ''typing''),
      (''dataclass'', Imported ''dataclasses''), (''field'', Imported ''dataclasses''),
      (''torch'', Imported ''torch''), (''F'', Imported ''torch.nn.functional''),
      (''DataLoader'', Imported ''torch_geometric.loader''),
      (''Data'', Imported ''torch_geometric.data''),
      (''Transformer'', Imported ''.transformer''),
      (''PlaceHolder'', Imported ''.utils''), (''to_dense'', Imported ''.utils''),
      (''NoiseScheduleDiscrete'', Imported ''.diffusion''),
      (''MarginalTransition'', Imported ''.diffusion''),
      (''sample_discrete_features'', Imported ''.diffusion''),
      (''sample_discrete_feature_noise'', Imported ''.diffusion''),
      (''reverse_diffusion'', Imported ''.diffusion''),
      (''BaseMolecularGenerator'', Imported ''...base''),
      (''graph_from_smiles'', Imported ''...utils''),
      (''graph_to_smiles'', Imported ''...utils''),
      (''GraphDITMolecularGenerator'', ClassDefinition)]"

text \<open>\<^verbatim>\<open>obj.device\<close>.\<close>

fun device_of :: "pyobject \<Rightarrow> py_error + device" where
  "device_of (TensorOn d) = Inr d"
| "device_of _ = Inl (AttributeError ''device'')"

text \<open>
  The nested function \<^verbatim>\<open>get_prob\<close> (lines 455-491), in the three steps its variable
  names mark. Its free variables \<^verbatim>\<open>bs\<close>, \<^verbatim>\<open>n\<close>, \<^verbatim>\<open>X_t\<close>, \<^verbatim>\<open>E_t\<close>, \<^verbatim>\<open>beta_t\<close>,
  \<^verbatim>\<open>alpha_s_bar\<close> and \<^verbatim>\<open>alpha_t_bar\<close> are arguments here.

  Lines 456-478: the network's prediction, the transition matrices and
  \<^verbatim>\<open>reverse_diffusion\<close> give \<^verbatim>\<open>unnormalized_prob_X\<close> (batch, nodes, classes) and
  \<^verbatim>\<open>unnormalized_prob_E\<close> (batch, nodes * nodes, classes); the last size of \<^verbatim>\<open>pred_E\<close> is
  kept for line 489.
\<close>

definition unnormalized_prob ::
  "('w, 'b, 'd, 'x) GraphDIT_ext_scheme \<Rightarrow> 'a GraphDIT_scheme \<Rightarrow> nat \<Rightarrow> nat \<Rightarrow> tensor3 \<Rightarrow>
   tensor4 \<Rightarrow> tensor1 \<Rightarrow> tensor1 \<Rightarrow> tensor1 \<Rightarrow> noisy_data \<Rightarrow> pyobject \<Rightarrow> bool \<Rightarrow> 'w \<Rightarrow>
   py_error + (tensor3 \<times> tensor3 \<times> nat \<times> 'w)" where
  "unnormalized_prob ext self bs n Xt Et beta_t' alpha_s_bar' alpha_t_bar' noisy
     text_embedding unconditioned w =
     (let (pred, w) = network ext noisy unconditioned w;
          pred_X = map (map (softmax ext)) (fst pred);
          pred_E = map (map (map (softmax ext))) (snd pred)
      in
      and_then (device_of text_embedding) (\<lambda>device.
      and_then (case transition_model self of
                  None \<Rightarrow> Inl (AttributeError ''transition_model'')
                | Some tm \<Rightarrow> Inr tm) (\<lambda>tm.
      let Qtb = get_Qt_bar ext tm alpha_t_bar' device;
          Qsb = get_Qt_bar ext tm alpha_s_bar' device;
          Qt = get_Qt ext tm beta_t' device
      in
      and_then (reshape3 bs n (concat (concat (concat Et)))) (\<lambda>Et_rows.
      and_then (cat_last Xt Et_rows) (\<lambda>Xt_all.
      and_then (reshape3 bs n (concat (concat (concat pred_E)))) (\<lambda>pred_E_rows.
      and_then (cat_last pred_X pred_E_rows) (\<lambda>predX_all.
      let unnormalized_probX_all = reverse_diffusion ext predX_all Xt_all Qt Qsb Qtb;
          unnormalized_prob_X = map (map (slice_to (X_dim self))) unnormalized_probX_all
      in
      and_then (reshape3 bs (n * n)
                  (concat (concat (map (map (slice_from (X_dim self)))
                                     unnormalized_probX_all)))) (\<lambda>unnormalized_prob_E.
      Inr (unnormalized_prob_X, unnormalized_prob_E, size3 pred_E, w)))))))))"

text \<open>
  Lines 480-488: the floor for the rows that sum to zero, then every row is divided by
  its sum. The two slices of \<^verbatim>\<open>unnormalized_probX_all\<close> do not overlap, so the in-place
  writes of lines 480 and 481 do not meet.
\<close>

definition normalized_prob :: "tensor3 \<Rightarrow> tensor3 \<Rightarrow> tensor3 \<times> tensor3" where
  "normalized_prob unnormalized_prob_X unnormalized_prob_E =
     (let unnormalized_prob_X = map (map floor_zero_row) unnormalized_prob_X;
          unnormalized_prob_E = map (map floor_zero_row) unnormalized_prob_E;
          prob_X = map (map div_by_sum) unnormalized_prob_X;
          prob_E = map (map div_by_sum) unnormalized_prob_E
      in (prob_X, prob_E))"

definition get_prob ::
  "('w, 'b, 'd, 'x) GraphDIT_ext_scheme \<Rightarrow> 'a GraphDIT_scheme \<Rightarrow> nat \<Rightarrow> nat \<Rightarrow> tensor3 \<Rightarrow>
   tensor4 \<Rightarrow> tensor1 \<Rightarrow> tensor1 \<Rightarrow> tensor1 \<Rightarrow> noisy_data \<Rightarrow> pyobject \<Rightarrow> bool \<Rightarrow> 'w \<Rightarrow>
   py_error + ((tensor3 \<times> tensor4) \<times> 'w)" where
  "get_prob ext self bs n Xt Et beta_t' alpha_s_bar' alpha_t_bar' noisy text_embedding
     unconditioned w =
     and_then (unnormalized_prob ext self bs n Xt Et beta_t' alpha_s_bar' alpha_t_bar' noisy
                 text_embedding unconditioned w)
       (\<lambda>(unnormalized_prob_X, unnormalized_prob_E, classes, w).
     let (prob_X, prob_E) = normalized_prob unnormalized_prob_X unnormalized_prob_E
     in and_then (reshape4 bs n n classes (concat (concat prob_E))) (\<lambda>prob_E.
        Inr ((prob_X, prob_E), w)))"

text \<open>
  The guidance of lines 500-509, row by row: \<^verbatim>\<open>clamp_min\<close> is \<open>max\<close>, and \<^verbatim>\<open>**\<close> with
  a float exponent is \<open>float_pow\<close>: anything to the power 0 is 1, and 0 to a positive
  power is 0. It is torch's value for a base that is not negative and an exponent that is
  not negative, which is where the probabilities and the default scale are.
\<close>

definition float_pow :: "real \<Rightarrow> real \<Rightarrow> real" where
  "float_pow x g = (if g = 0 then 1 else if x = 0 then 0 else x powr g)"

definition reweight :: "real \<Rightarrow> tensor1 \<Rightarrow> tensor1 \<Rightarrow> tensor1" where
  "reweight g uncon cond =
     map2 (\<lambda>u p. u * float_pow (p / max u floor_value) g) uncon cond"

definition renormalize :: "tensor1 \<Rightarrow> tensor1" where
  "renormalize row = map (\<lambda>v. v / max (sum_list row) floor_value) row"

definition guide_row :: "real \<Rightarrow> tensor1 \<Rightarrow> tensor1 \<Rightarrow> tensor1" where
  "guide_row g uncon cond = renormalize (reweight g uncon cond)"

text \<open>
  Lines 493-509 of \<^verbatim>\<open>sample_p_zs_given_zt\<close>, from the first call of \<^verbatim>\<open>get_prob\<close> to the
  end of the guidance block, given the value of \<^verbatim>\<open>text_embedding\<close>.
\<close>

definition guided_prob ::
  "('w, 'b, 'd, 'x) GraphDIT_ext_scheme \<Rightarrow> 'a GraphDIT_scheme \<Rightarrow> nat \<Rightarrow> nat \<Rightarrow> tensor3 \<Rightarrow>
   tensor4 \<Rightarrow> tensor1 \<Rightarrow> tensor1 \<Rightarrow> tensor1 \<Rightarrow> noisy_data \<Rightarrow> pyobject \<Rightarrow> 'w \<Rightarrow>
   py_error + ((tensor3 \<times> tensor4) \<times> 'w)" where
  "guided_prob ext self bs n Xt Et beta_t' alpha_s_bar' alpha_t_bar' noisy text_embedding w =
     and_then (get_prob ext self bs n Xt Et beta_t' alpha_s_bar' alpha_t_bar' noisy
                 text_embedding False w) (\<lambda>((prob_X, prob_E), w).
       case guide_scale self of
         None \<Rightarrow> Inr ((prob_X, prob_E), w)
       | Some g \<Rightarrow>
           if g \<noteq> 1 then
             and_then (get_prob ext self bs n Xt Et beta_t' alpha_s_bar' alpha_t_bar' noisy
                         text_embedding True w) (\<lambda>((uncon_prob_X, uncon_prob_E), w).
               Inr ((map2 (map2 (guide_row g)) uncon_prob_X prob_X,
                     map2 (map2 (map2 (guide_row g))) uncon_prob_E prob_E), w))
           else Inr ((prob_X, prob_E), w))"

text \<open>
  \<^verbatim>\<open>F.one_hot(idx, num_classes)\<close>: every index must be a class; \<^verbatim>\<open>num_classes = -1\<close>
  infers the number of classes from the largest index.
\<close>

definition one_hot_classes :: "int \<Rightarrow> int list \<Rightarrow> py_error + nat" where
  "one_hot_classes k idx =
     (if k = - 1 then
        (if idx = [] \<or> \<not> list_all (\<lambda>i. 0 \<le> i) idx then Inl (RuntimeError ''one_hot'')
         else Inr (nat (fold max idx 0 + 1)))
      else if k \<le> 0 \<or> \<not> list_all (\<lambda>i. 0 \<le> i \<and> i < k) idx then Inl (RuntimeError ''one_hot'')
      else Inr (nat k))"

definition one_hot_row :: "nat \<Rightarrow> int \<Rightarrow> tensor1" where
  "one_hot_row c i = map (\<lambda>j. if int j = i then 1 else 0) [0 ..< c]"

definition one_hot3 :: "int \<Rightarrow> int list list \<Rightarrow> py_error + tensor3" where
  "one_hot3 k idx =
     and_then (one_hot_classes k (concat idx)) (\<lambda>c. Inr (map (map (one_hot_row c)) idx))"

definition one_hot4 :: "int \<Rightarrow> int list list list \<Rightarrow> py_error + tensor4" where
  "one_hot4 k idx =
     and_then (one_hot_classes k (concat (concat idx)))
       (\<lambda>c. Inr (map (map (map (one_hot_row c))) idx))"

text \<open>
  \<^verbatim>\<open>torch.transpose(E, 1, 2)\<close> swaps the two node axes: entry \<open>(i, j)\<close> of the result is
  entry \<open>(j, i)\<close> of the graph's \<open>n \<times> n\<close> table. \<^verbatim>\<open>(E == torch.transpose(E, 1, 2)).all()\<close>
  is \<open>symmetric_edges\<close>: it holds of no table that is not square.
\<close>

definition transpose_nodes :: "'a list list \<Rightarrow> 'a list list" where
  "transpose_nodes M = map (\<lambda>i. map (\<lambda>j. M ! j ! i) [0 ..< length M]) [0 ..< length M]"

definition symmetric_edges :: "'a list list list \<Rightarrow> bool" where
  "symmetric_edges E = (E = map transpose_nodes E)"

definition limit_dist_missing :: py_error where
  "limit_dist_missing =
     ValueError ''Limit distribution not found. Please call setup_diffusion_params first.''"

definition atom_decoder_missing :: py_error where
  "atom_decoder_missing =
     ValueError ''Atom decoder not found. Please call setup_diffusion_params first.''"

text \<open>
  \<^verbatim>\<open>sample_p_zs_given_zt\<close> (lines 436-521). \<open>globs\<close> is the module's global namespace at
  the time of the call, where line 493 looks \<^verbatim>\<open>text_embedding\<close> up: the name is neither a
  parameter nor a local variable of the method.
\<close>

definition sample_p_zs_given_zt ::
  "(string \<times> pyobject) list \<Rightarrow> ('w, 'b, 'd, 'x) GraphDIT_ext_scheme \<Rightarrow> 'a GraphDIT_scheme \<Rightarrow>
   tensor1 \<Rightarrow> tensor1 \<Rightarrow> tensor3 \<Rightarrow> tensor4 \<Rightarrow> tensor2 \<Rightarrow> node_mask \<Rightarrow> 'w \<Rightarrow>
   py_error + (sample \<times> 'w)" where
  "sample_p_zs_given_zt globs ext self s t Xt Et properties node_mask w =
     (let bs = length Xt; n = size1 Xt in
      case noise_schedule self of
        None \<Rightarrow> Inl (AttributeError ''noise_schedule'')
      | Some ns \<Rightarrow>
     (let beta_t' = noise_schedule_call ext ns t;
          alpha_s_bar' = get_alpha_bar ext ns s;
          alpha_t_bar' = get_alpha_bar ext ns t;
          noisy = \<lparr>nd_X_t = Xt, nd_E_t = Et, nd_y_t = properties, nd_t = t,
                   nd_node_mask = node_mask\<rparr>
      in case map_of globs ''text_embedding'' of
           None \<Rightarrow> Inl (NameError ''text_embedding'')
         | Some text_embedding \<Rightarrow>
      and_then (guided_prob ext self bs n Xt Et beta_t' alpha_s_bar' alpha_t_bar' noisy
                  text_embedding w) (\<lambda>((prob_X, prob_E), w).
      let ((sampled_X, sampled_E), w) = sample_discrete_features ext prob_X prob_E node_mask w
      in
      and_then (one_hot3 (X_dim self) sampled_X) (\<lambda>X_s.
      and_then (one_hot4 (E_dim self) sampled_E) (\<lambda>E_s.
      if \<not> symmetric_edges E_s then Inl AssertionError
      else if \<not> (shape3 Xt = shape3 X_s \<and> shape4 Et = shape4 E_s) then Inl AssertionError
      else Inr (mask ext (PlaceHolder X_s E_s properties) node_mask, w))))))"

text \<open>
  The loop of \<^verbatim>\<open>generate\<close> (lines 412-420) over the values of \<^verbatim>\<open>s_int\<close>; \<open>latest\<close> is the
  variable \<^verbatim>\<open>sampled_s\<close>, unbound until the body has run once.
\<close>

fun denoise_loop ::
  "(string \<times> pyobject) list \<Rightarrow> ('w, 'b, 'd, 'x) GraphDIT_ext_scheme \<Rightarrow> 'a GraphDIT_scheme \<Rightarrow>
   nat \<Rightarrow> node_mask \<Rightarrow> nat list \<Rightarrow> tensor3 \<Rightarrow> tensor4 \<Rightarrow> tensor2 \<Rightarrow> sample option \<Rightarrow> 'w \<Rightarrow>
   py_error + (sample option \<times> 'w)" where
  "denoise_loop globs ext self n_graphs node_mask [] X E y latest w = Inr (latest, w)"
| "denoise_loop globs ext self n_graphs node_mask (s_int # rest) X E y latest w =
     (let s_array = replicate n_graphs (real s_int);
          t_array = map (\<lambda>s. s + 1) s_array;
          s_norm = map (\<lambda>s. s / real_of_int (timesteps self)) s_array;
          t_norm = map (\<lambda>t. t / real_of_int (timesteps self)) t_array
      in case sample_p_zs_given_zt globs ext self s_norm t_norm X E y node_mask w of
           Inl e \<Rightarrow> Inl e
         | Inr (sampled_s, w) \<Rightarrow>
             denoise_loop globs ext self n_graphs node_mask rest
               (ph_X sampled_s) (ph_E sampled_s) (ph_y sampled_s) (Some sampled_s) w)"

text \<open>
  \<^verbatim>\<open>generate\<close> (lines 347-434). \<open>labels\<close> is the (batch, properties) tensor of line 378
  and \<open>num_node\<close>, when given, the node count of each graph (the (batch, 1) tensor of
  line 388).

  Lines 371-408: the node counts, the node mask, the two configuration checks, the sample
  from the limit distribution and the symmetry assertion.
\<close>

definition initial_noise ::
  "('w, 'b, 'd, 'x) GraphDIT_ext_scheme \<Rightarrow> 'a GraphDIT_scheme \<Rightarrow> tensor2 \<Rightarrow> int list option \<Rightarrow>
   'w \<Rightarrow> py_error + (int list \<times> node_mask \<times> tensor3 \<times> tensor4 \<times> 'w)" where
  "initial_noise ext self labels num_node w =
     (let n_graphs = length labels in
      and_then
        (case num_node of
           None \<Rightarrow>
             (case dataset_info self of
                None \<Rightarrow> Inl (KeyError ''node_dist'')
              | Some info \<Rightarrow>
                  (case node_dist info of
                     None \<Rightarrow> Inl (AttributeError ''sample_n'')
                   | Some nd \<Rightarrow> Inr (sample_n ext nd n_graphs w)))
         | Some counts \<Rightarrow> Inr (counts, w)) (\<lambda>(num_node, w).
      if length num_node \<noteq> n_graphs then Inl AssertionError
      else if max_node self < 0 then Inl (RuntimeError ''arange'')
      else
      let node_mask = map (\<lambda>count. map (\<lambda>i. int i < count) [0 ..< nat (max_node self)]) num_node
      in
      case limit_dist self of
        None \<Rightarrow> Inl limit_dist_missing
      | Some limit \<Rightarrow>
      (case atom_decoder self of
        None \<Rightarrow> Inl atom_decoder_missing
      | Some decoder \<Rightarrow>
      (let (z_T, w) = sample_discrete_feature_noise ext limit node_mask w;
           X = ph_X z_T;
           E = ph_E z_T
       in
       if \<not> symmetric_edges E then Inl AssertionError
       else Inr (num_node, node_mask, X, E, w)))))"

definition generate ::
  "(string \<times> pyobject) list \<Rightarrow> ('w, 'b, 'd, 'x) GraphDIT_ext_scheme \<Rightarrow> 'a GraphDIT_scheme \<Rightarrow>
   tensor2 \<Rightarrow> int list option \<Rightarrow> 'w \<Rightarrow> py_error + (string list \<times> 'w)" where
  "generate globs ext self labels num_node w =
     and_then (initial_noise ext self labels num_node w) (\<lambda>(num_node, node_mask, X, E, w).
     and_then (denoise_loop globs ext self (length labels) node_mask
                 (rev [0 ..< nat (timesteps self)]) X E labels None w) (\<lambda>(latest, w).
     case latest of
       None \<Rightarrow> Inl (UnboundLocalError ''sampled_s'')
     | Some sampled_s \<Rightarrow>
     (let final = mask_collapse ext sampled_s node_mask in
      if length (ph_X final) < length labels \<or> length (ph_E final) < length labels
      then Inl (IndexError ''index out of range'')
      else
      let molecule_list =
            map (\<lambda>(i, n). (slice_to n (ph_X final ! i),
                            map (slice_to n) (slice_to n (ph_E final ! i))))
              (zip [0 ..< length labels] num_node)
      in case dataset_info self of
           None \<Rightarrow> Inl (KeyError ''atom_decoder'')
         | Some info \<Rightarrow>
             Inr (graph_to_smiles ext molecule_list (info_atom_decoder info), w))))"

section \<open>Estimators as the dataclasses construct them\<close>

text \<open>
  The field defaults of the two dataclasses. A freshly constructed generator has the empty
  \<^verbatim>\<open>dataset_info\<close> and none of the attributes that \<^verbatim>\<open>setup_diffusion_params\<close> assigns.
\<close>

definition default_encoder :: ContextPred where
  "default_encoder =
     \<lparr>num_layer = 3, hidden_size = 300, batch_size = 128, epochs = 500,
      learning_rate = 1 / 1000, grad_clip_value = None, weight_decay = 0,
      use_lr_scheduler = False, scheduler_factor = 1 / 2, scheduler_patience = 5,
      fitting_loss = [], fitting_epoch = 0, is_fitted = False,
      num_task = None, drop_ratio = 1 / 2, norm_layer = ''batch_norm'',
      encoder_type = ''gin-virtual'', readout = ''sum'', mode = ''cbow'', csize = 2,
      neg_samples = 1\<rparr>"

definition default_generator :: GraphDIT where
  "default_generator =
     \<lparr>num_layer = 6, hidden_size = 1152, batch_size = 128, epochs = 10000,
      learning_rate = 2 / 10000, grad_clip_value = None, weight_decay = 0,
      use_lr_scheduler = False, scheduler_factor = 1 / 2, scheduler_patience = 5,
      fitting_loss = [], fitting_epoch = 0, is_fitted = False,
      max_node = 50, num_head = 16, mlp_ratio = 4, dropout = 0, drop_condition = 0,
      X_dim = 118, E_dim = 5, y_dim = 1, task_type = [], timesteps = 500,
      guide_scale = Some 2, dataset_info = None, transition_model = None,
      limit_dist = None, noise_schedule = None, atom_decoder = None\<rparr>"

definition four_molecules :: "string list" where
  "four_molecules = [''C'', ''CC'', ''CCC'', ''CCCC'']"

text \<open>
  A checkpoint-style input with two atom types, two edge types and graphs of at most two
  nodes, and the generator that \<^verbatim>\<open>setup_diffusion_params\<close> makes of it (with two
  timesteps).
\<close>

definition example_info :: dataset_info where
  "example_info =
     \<lparr>active_index = Some [0, 1], x_margins = Some [1, 3], e_margins = Some [3, 1],
      xe_conditions = Some [[[1, 1], [1, 1]], [[1, 1], [1, 1]]],
      info_atom_decoder = Some [''C'', ''N''], node_dist = Some [0, 0, 1]\<rparr>"

definition small_generator :: GraphDIT where
  "small_generator = default_generator\<lparr>epochs := 2, X_dim := 2, E_dim := 2\<rparr>"

definition configured_generator :: GraphDIT where
  "configured_generator =
     small_generator\<lparr>max_node := 2, timesteps := 2, dataset_info := Some example_info,
       transition_model :=
         Some (MarginalTransition [1 / 4, 3 / 4] [3 / 4, 1 / 4]
                 [[1 / 2, 1 / 2], [1 / 2, 1 / 2]] [[1 / 2, 1 / 2], [1 / 2, 1 / 2]] 1 2),
       limit_dist := Some (PlaceHolder [1 / 4, 3 / 4] [3 / 4, 1 / 4] ()),
       noise_schedule := Some (NoiseScheduleDiscrete 2)\<rparr>"

section \<open>Externals that record their calls\<close>

text \<open>
  Concrete stand-ins for the absent code, for running the model on concrete inputs. The
  state is the list of the calls made so far. The training stand-ins give each batch a
  finite loss; the loader of the encoder makes two batches of its input, that of the
  generator two batches of two graphs.
\<close>

datatype torch_call =
    InitializeModel | TrainMode | ZeroGrad | ComputeLoss | Backward | ClipGradNorm real
  | OptimizerStep | SchedulerStep | Randint | Network bool | SampleNoise | SampleFeatures

definition recording_encoder_ext ::
  "(torch_call list, string list, string list list) ContextPred_ext" where
  "recording_encoder_ext =
     \<lparr>initialize_model = (\<lambda>w. Inr (w @ [InitializeModel])),
      iterate_loader = (\<lambda>d w. (d, w)),
      train_mode = (\<lambda>w. w @ [TrainMode]),
      zero_grad = (\<lambda>w. w @ [ZeroGrad]),
      backward = (\<lambda>w. w @ [Backward]),
      clip_grad_norm = (\<lambda>c w. w @ [ClipGradNorm c]),
      optimizer_step = (\<lambda>opt w. w @ [OptimizerStep]),
      scheduler_step = (\<lambda>sch m w. w @ [SchedulerStep]),
      make_dataset = (\<lambda>X. Inr [take 2 X, drop 2 X]),
      compute_loss = (\<lambda>b w. (Finite (real (length b)), w @ [ComputeLoss]))\<rparr>"

text \<open>
  For the generator: the noise schedule hands back its argument, so that the returned
  \<^verbatim>\<open>beta_t\<close> and \<^verbatim>\<open>alpha_s_bar\<close> show what it was called with; \<open>randint\<close> draws its lower
  bound; the network predicts the current graph, with the two classes swapped when it is
  run unconditioned; \<^verbatim>\<open>reverse_diffusion\<close> hands back the prediction; the samplers pick
  class 0 everywhere.
\<close>

definition recording_generator_ext :: "(torch_call list, nat, nat list) GraphDIT_ext" where
  "recording_generator_ext =
     \<lparr>initialize_model = (\<lambda>w. Inr (w @ [InitializeModel])),
      iterate_loader = (\<lambda>d w. (d, w)),
      train_mode = (\<lambda>w. w @ [TrainMode]),
      zero_grad = (\<lambda>w. w @ [ZeroGrad]),
      backward = (\<lambda>w. w @ [Backward]),
      clip_grad_norm = (\<lambda>c w. w @ [ClipGradNorm c]),
      optimizer_step = (\<lambda>opt w. w @ [OptimizerStep]),
      scheduler_step = (\<lambda>sch m w. w @ [SchedulerStep]),
      make_labelled_dataset = (\<lambda>X y. Inr [2, 2]),
      to_dense = (\<lambda>idx b. (replicate b [[1, 0]], replicate b [[[1, 0]]], replicate b [0],
                            replicate b [True])),
      randint = (\<lambda>low high k w. (replicate k low, w @ [Randint])),
      noise_schedule_call = (\<lambda>ns t. t),
      get_alpha_bar = (\<lambda>ns t. t),
      corrupt = (\<lambda>tm a X E y m w. Inr (PlaceHolder X E y, w)),
      compute_diffusion_loss = (\<lambda>noisy X E w. (Finite 1, w @ [ComputeLoss])),
      sample_n = (\<lambda>nd k w. (replicate k 1, w)),
      sample_discrete_feature_noise =
        (\<lambda>limit m w. (PlaceHolder (map (map (\<lambda>_. [1, 0])) m)
                         (map (\<lambda>r. map (\<lambda>_. map (\<lambda>_. [1, 0]) r) r) m) [],
                       w @ [SampleNoise])),
      network = (\<lambda>noisy u w.
                   ((if u then map (map rev) (nd_X_t noisy) else nd_X_t noisy,
                     if u then map (map (map rev)) (nd_E_t noisy) else nd_E_t noisy),
                    w @ [Network u])),
      softmax = (\<lambda>v. v),
      get_Qt_bar = (\<lambda>tm a d. []),
      get_Qt = (\<lambda>tm a d. []),
      reverse_diffusion = (\<lambda>pred Xt Qt Qsb Qtb. pred),
      sample_discrete_features =
        (\<lambda>pX pE m w. ((map (map (\<lambda>_. 0)) pX, map (map (map (\<lambda>_. 0))) pE),
                       w @ [SampleFeatures])),
      mask = (\<lambda>z m. z),
      mask_collapse = (\<lambda>z m. PlaceHolder (map (map (\<lambda>_. 0)) (ph_X z))
                                (map (map (map (\<lambda>_. 0))) (ph_E z)) (ph_y z)),
      graph_to_smiles = (\<lambda>mols decoder. map (\<lambda>_. ''C'') mols)\<rparr>"

text \<open>
  Inputs for a denoising step: the network's input for one graph of one node, a graph of
  two nodes with every node and edge of class 0, and a global namespace in which a caller
  has bound \<^verbatim>\<open>text_embedding\<close> to a tensor.
\<close>

definition example_noisy :: "tensor3 \<Rightarrow> tensor4 \<Rightarrow> noisy_data" where
  "example_noisy X E = \<lparr>nd_X_t = X, nd_E_t = E, nd_y_t = [[0]], nd_t = [1],
     nd_node_mask = [[True]]\<rparr>"

definition two_node_X :: tensor3 where
  "two_node_X = [[[1, 0], [1, 0]]]"

definition two_node_E :: tensor4 where
  "two_node_E = [[[[1, 0], [1, 0]], [[1, 0], [1, 0]]]]"

definition two_node_noisy :: noisy_data where
  "two_node_noisy = \<lparr>nd_X_t = two_node_X, nd_E_t = two_node_E, nd_y_t = [[1 / 2]],
     nd_t = [1], nd_node_mask = [[True, True]]\<rparr>"

definition patched_globals :: "(string \<times> pyobject) list" where
  "patched_globals = (''text_embedding'', TensorOn CPU) # module_globals"

section \<open>Checkpoints without hyperparameters\<close>

text \<open>
  C10. For every checkpoint mapping that lacks the key \<^verbatim>\<open>hyperparameters\<close>,
  \<^verbatim>\<open>_get_model_params\<close> raises the ValueError at once, in the generator and in the encoder,
  whatever the estimator's own fields and the other entries of the checkpoint are.
\<close>

theorem get_model_params_missing_hyperparameters:
  assumes "map_of ckpt ''hyperparameters'' = None"
  shows "GraphDIT_get_model_params g (Some ckpt) = Inl missing_hyperparameters
       \<and> ContextPred_get_model_params e (Some ckpt) = Inl missing_hyperparameters"
  using assms
  by (simp add: GraphDIT_get_model_params_def ContextPred_get_model_params_def)

theorem get_model_params_missing_hyperparameters_witness:
  "map_of [(''model_state_dict'', PDict [])] ''hyperparameters'' = None
   \<and> GraphDIT_get_model_params default_generator (Some [(''model_state_dict'', PDict [])])
       = Inl (ValueError ''Checkpoint missing 'hyperparameters' key'')
   \<and> ContextPred_get_model_params default_encoder (Some [(''model_state_dict'', PDict [])])
       = Inl (ValueError ''Checkpoint missing 'hyperparameters' key'')"
  using get_model_params_missing_hyperparameters
          [of "[(''model_state_dict'', PDict [])]" default_generator default_encoder]
  by (simp add: missing_hyperparameters_def)

section \<open>The loss history of fit\<close>

lemma np_mean_finite: "xs \<noteq> [] \<Longrightarrow> list_all is_finite xs \<Longrightarrow> is_finite (np_mean xs)"
  by (simp add: np_mean_def)

lemma ContextPred_epoch_losses_0:
  "ContextPred_epoch_losses ext self opt sched d w 0 = fst (ContextPred_epoch ext self opt sched d w)"
  by (simp add: ContextPred_epoch_losses_def)

lemma ContextPred_epoch_losses_Suc:
  "ContextPred_epoch_losses ext self opt sched d w (Suc i) =
   ContextPred_epoch_losses ext self opt sched d (snd (ContextPred_epoch ext self opt sched d w)) i"
  by (simp add: ContextPred_epoch_losses_def)

lemma map_upt_Suc_shift: "map f [0 ..< Suc n] = f 0 # map (\<lambda>i. f (Suc i)) [0 ..< n]"
  by (simp add: upt_conv_Cons map_Suc_upt[symmetric] del: upt_Suc)

lemma ContextPred_fit_loop_history:
  "ContextPred_fit_loop ext self opt sched d es h w = (h', w') \<Longrightarrow>
   h' = h @ map (\<lambda>i. np_mean (ContextPred_epoch_losses ext self opt sched d w i)) [0 ..< length es]"
proof (induction es arbitrary: h w)
  case Nil
  then show ?case by simp
next
  case (Cons e es)
  obtain tl w1 where ep: "ContextPred_epoch ext self opt sched d w = (tl, w1)"
    by (cases "ContextPred_epoch ext self opt sched d w")
  from Cons.prems ep
  have "ContextPred_fit_loop ext self opt sched d es (h @ [np_mean tl]) w1 = (h', w')"
    by simp
  from Cons.IH[OF this]
  have "h' = (h @ [np_mean tl]) @
      map (\<lambda>i. np_mean (ContextPred_epoch_losses ext self opt sched d w1 i)) [0 ..< length es]" .
  then show ?case
    using ep
    by (simp add: map_upt_Suc_shift ContextPred_epoch_losses_0 ContextPred_epoch_losses_Suc
             del: upt_Suc)
qed

lemma GraphDIT_fit_loop_history:
  "GraphDIT_fit_loop ext self opt sched d es h w = Inr (h', w') \<Longrightarrow>
   (\<exists>ls. length ls = length es
        \<and> (\<forall>i < length es. GraphDIT_epoch_losses ext self opt sched d w i = Some (ls ! i))
        \<and> h' = h @ map np_mean ls)"
proof (induction es arbitrary: h w)
  case Nil
  then show ?case by simp
next
  case (Cons e es)
  from Cons.prems obtain tl w1 where ep: "GraphDIT_epoch ext self opt sched d w = Inr (tl, w1)"
    by (cases "GraphDIT_epoch ext self opt sched d w") auto
  from Cons.prems ep
  have "GraphDIT_fit_loop ext self opt sched d es (h @ [np_mean tl]) w1 = Inr (h', w')"
    by simp
  from Cons.IH[OF this] obtain ls where ls: "length ls = length es"
    "\<forall>i < length es. GraphDIT_epoch_losses ext self opt sched d w1 i = Some (ls ! i)"
    "h' = (h @ [np_mean tl]) @ map np_mean ls" by blast
  have "\<forall>i < length (e # es). GraphDIT_epoch_losses ext self opt sched d w i = Some ((tl # ls) ! i)"
  proof (intro allI impI)
    fix i assume "i < length (e # es)"
    then show "GraphDIT_epoch_losses ext self opt sched d w i = Some ((tl # ls) ! i)"
      using ep ls(2) by (cases i) auto
  qed
  with ls show ?case
    by (intro exI[of _ "tl # ls"]) simp
qed

lemma setup_diffusion_params_keeps:
  "setup_diffusion_params self X = Inr self' \<Longrightarrow>
   epochs self' = epochs self \<and> atom_decoder self' = atom_decoder self
   \<and> grad_clip_value self' = grad_clip_value self"
  by (auto simp add: setup_diffusion_params_def get_diffusion_params_def Let_def
           split: train_input.splits option.splits sum.splits)

lemma enc_fit_run:
  "ContextPred_fit recording_encoder_ext (default_encoder\<lparr>epochs := 2\<rparr>) four_molecules []
   = Inr (default_encoder\<lparr>epochs := 2, fitting_loss := [Finite 2, Finite 2],
                           fitting_epoch := 1, is_fitted := True\<rparr>,
      [InitializeModel, TrainMode, ZeroGrad, ComputeLoss, Backward,
       OptimizerStep, ZeroGrad, ComputeLoss, Backward, OptimizerStep,
       TrainMode, ZeroGrad, ComputeLoss, Backward, OptimizerStep, ZeroGrad,
       ComputeLoss, Backward, OptimizerStep])"
  by (simp add: ContextPred_fit_def recording_encoder_ext_def default_encoder_def
        four_molecules_def setup_optimizers_def ContextPred_epoch_def
        ContextPred_train_epoch_def np_mean_def Let_def upt_rec)

lemma gen_fit_run:
  "GraphDIT_fit recording_generator_ext small_generator (Checkpoint example_info 2 2) None []
   = Inr (configured_generator\<lparr>fitting_loss := [Finite 1, Finite 1], fitting_epoch := 1,
                                 is_fitted := True\<rparr>,
      [InitializeModel, TrainMode, ZeroGrad, Randint, ComputeLoss, Backward,
       OptimizerStep, ZeroGrad, Randint, ComputeLoss, Backward,
       OptimizerStep, TrainMode, ZeroGrad, Randint, ComputeLoss, Backward,
       OptimizerStep, ZeroGrad, Randint, ComputeLoss, Backward,
       OptimizerStep])"
  by (simp add: GraphDIT_fit_def recording_generator_ext_def small_generator_def
        default_generator_def configured_generator_def example_info_def
        setup_diffusion_params_def get_diffusion_params_def div_by_sum_def
        index_select_def sum_dim1_def
        setup_optimizers_def GraphDIT_epoch_def apply_noise_def
        GraphDIT_train_epoch_def np_mean_def Let_def upt_rec)

text \<open>
  C8. When \<^verbatim>\<open>fit\<close> returns, in the encoder and in the generator, \<^verbatim>\<open>fitting_loss\<close> has
  exactly \<^verbatim>\<open>epochs\<close> entries (and there was at least one epoch), the \<open>i\<close>-th entry is
  \<^verbatim>\<open>np.mean\<close> of the per-batch losses that the \<open>i\<close>-th call of \<^verbatim>\<open>_train_epoch\<close> returned,
  and it is finite when that epoch had a batch and all its batch losses were finite. With
  two epochs of two batches each the history has length 2 and finite entries.
\<close>

theorem fitting_loss_one_mean_per_epoch:
  "(ContextPred_fit ext self X w = Inr (self', w') \<longrightarrow>
      length (fitting_loss self') = nat (epochs self) \<and> 0 < epochs self
      \<and> (\<forall>i < nat (epochs self). \<exists>ls.
            ContextPred_fit_epoch_losses ext self X w i = Some ls
            \<and> fitting_loss self' ! i = np_mean ls
            \<and> (ls \<noteq> [] \<and> list_all is_finite ls \<longrightarrow> is_finite (fitting_loss self' ! i))))
   \<and> (GraphDIT_fit gext g Xg yg wg = Inr (g', wg') \<longrightarrow>
      length (fitting_loss g') = nat (epochs g) \<and> 0 < epochs g
      \<and> (\<forall>i < nat (epochs g). \<exists>ls.
            GraphDIT_fit_epoch_losses gext g Xg yg wg i = Some ls
            \<and> fitting_loss g' ! i = np_mean ls
            \<and> (ls \<noteq> [] \<and> list_all is_finite ls \<longrightarrow> is_finite (fitting_loss g' ! i))))"
proof (intro conjI impI)
  assume fit: "ContextPred_fit ext self X w = Inr (self', w')"
  then obtain w0 where w0: "initialize_model ext w = Inr w0"
    by (cases "initialize_model ext w") (auto simp add: ContextPred_fit_def)
  obtain opt sched where os: "setup_optimizers self = (opt, sched)"
    by (cases "setup_optimizers self")
  from fit w0 os obtain d where d: "make_dataset ext X = Inr d"
    by (cases "make_dataset ext X") (auto simp add: ContextPred_fit_def)
  obtain h w1 where loop:
    "ContextPred_fit_loop ext self opt sched d [0 ..< nat (epochs self)] [] w0 = (h, w1)"
    by (cases "ContextPred_fit_loop ext self opt sched d [0 ..< nat (epochs self)] [] w0")
  from fit w0 os d loop have pos: "0 < epochs self" and hist: "fitting_loss self' = h"
    by (auto simp add: ContextPred_fit_def split: if_splits)
  from ContextPred_fit_loop_history[OF loop]
  have h: "h = map (\<lambda>i. np_mean (ContextPred_epoch_losses ext self opt sched d w0 i))
                 [0 ..< nat (epochs self)]"
    by simp
  show "length (fitting_loss self') = nat (epochs self)" using hist h by simp
  show "0 < epochs self" by (rule pos)
  show "\<forall>i < nat (epochs self). \<exists>ls.
            ContextPred_fit_epoch_losses ext self X w i = Some ls
            \<and> fitting_loss self' ! i = np_mean ls
            \<and> (ls \<noteq> [] \<and> list_all is_finite ls \<longrightarrow> is_finite (fitting_loss self' ! i))"
    using hist h w0 os d
    by (auto simp add: ContextPred_fit_epoch_losses_def np_mean_finite)
next
  assume fit: "GraphDIT_fit gext g Xg yg wg = Inr (g', wg')"
  then obtain w0 where w0: "initialize_model gext wg = Inr w0"
    by (cases "initialize_model gext wg") (auto simp add: GraphDIT_fit_def)
  from fit w0 obtain g1 where g1: "setup_diffusion_params g Xg = Inr g1"
    by (cases "setup_diffusion_params g Xg") (auto simp add: GraphDIT_fit_def)
  have ep: "epochs g1 = epochs g" using setup_diffusion_params_keeps[OF g1] by simp
  obtain opt sched where os: "setup_optimizers g1 = (opt, sched)"
    by (cases "setup_optimizers g1")
  from fit w0 g1 os obtain d where d: "make_labelled_dataset gext Xg yg = Inr d"
    by (cases "make_labelled_dataset gext Xg yg") (auto simp add: GraphDIT_fit_def)
  from fit w0 g1 os d obtain h w1 where loop:
    "GraphDIT_fit_loop gext g1 opt sched d [0 ..< nat (epochs g1)] [] w0 = Inr (h, w1)"
    by (cases "GraphDIT_fit_loop gext g1 opt sched d [0 ..< nat (epochs g1)] [] w0")
       (auto simp add: GraphDIT_fit_def)
  from fit w0 g1 os d loop have pos: "0 < epochs g1" and hist: "fitting_loss g' = h"
    by (auto simp add: GraphDIT_fit_def split: if_splits)
  from GraphDIT_fit_loop_history[OF loop] obtain ls where ls:
    "length ls = nat (epochs g1)"
    "\<forall>i < nat (epochs g1). GraphDIT_epoch_losses gext g1 opt sched d w0 i = Some (ls ! i)"
    "h = map np_mean ls"
    by auto
  show "length (fitting_loss g') = nat (epochs g)" using hist ls ep by simp
  show "0 < epochs g" using pos ep by simp
  show "\<forall>i < nat (epochs g). \<exists>ls.
            GraphDIT_fit_epoch_losses gext g Xg yg wg i = Some ls
            \<and> fitting_loss g' ! i = np_mean ls
            \<and> (ls \<noteq> [] \<and> list_all is_finite ls \<longrightarrow> is_finite (fitting_loss g' ! i))"
    using hist ls ep w0 g1 os d
    by (auto simp add: GraphDIT_fit_epoch_losses_def np_mean_finite)
qed

theorem fitting_loss_one_mean_per_epoch_witness:
  "(\<exists>s w. ContextPred_fit recording_encoder_ext (default_encoder\<lparr>epochs := 2\<rparr>)
             four_molecules [] = Inr (s, w)
           \<and> length (fitting_loss s) = 2 \<and> list_all is_finite (fitting_loss s))
   \<and> (\<exists>s w. GraphDIT_fit recording_generator_ext small_generator
               (Checkpoint example_info 2 2) None [] = Inr (s, w)
           \<and> length (fitting_loss s) = 2 \<and> list_all is_finite (fitting_loss s))"
proof -
  note inst = fitting_loss_one_mean_per_epoch
    [of recording_encoder_ext "default_encoder\<lparr>epochs := 2\<rparr>" four_molecules "[]" _ _
        recording_generator_ext small_generator "Checkpoint example_info 2 2" None "[]"]
  from inst[THEN conjunct1, rule_format, OF enc_fit_run]
  have enc: "length (fitting_loss (default_encoder\<lparr>epochs := 2,
                fitting_loss := [Finite 2, Finite 2], fitting_epoch := 1,
                is_fitted := True\<rparr>)) = 2"
    by simp
  from inst[THEN conjunct2, rule_format, OF gen_fit_run]
  have gen: "length (fitting_loss (configured_generator\<lparr>fitting_loss := [Finite 1, Finite 1],
                fitting_epoch := 1, is_fitted := True\<rparr>)) = 2"
    by (simp add: small_generator_def default_generator_def)
  show ?thesis
    using enc gen enc_fit_run gen_fit_run by simp
qed

section \<open>Gradient clipping\<close>

lemma apply_noise_ignores_clip:
  "apply_noise (ext\<lparr>clip_grad_norm := f\<rparr>) (self\<lparr>grad_clip_value := c\<rparr>) X E y nm w
   = apply_noise ext self X E y nm w"
  by (simp add: apply_noise_def Let_def split: prod.splits option.splits sum.splits)

lemma GraphDIT_train_batches_ignore_clip:
  "GraphDIT_train_batches (ext\<lparr>clip_grad_norm := f\<rparr>) (self\<lparr>grad_clip_value := c\<rparr>)
     opt idx batches losses w
   = GraphDIT_train_batches ext self opt idx batches losses w"
proof (induction batches arbitrary: losses w)
  case Nil
  then show ?case by simp
next
  case (Cons b batches)
  show ?case
    by (simp add: apply_noise_ignores_clip Cons.IH Let_def split: prod.splits sum.splits)
qed

text \<open>
  C9. The generator's training step does not clip: \<^verbatim>\<open>_train_epoch\<close> of the generator is
  the same whatever \<^verbatim>\<open>grad_clip_value\<close> is and whatever \<^verbatim>\<open>clip_grad_norm_\<close> would do, and
  with \<^verbatim>\<open>grad_clip_value = 1\<close> its calls for one batch are zero_grad, (the noising and) the
  loss, backward, step. The encoder's step with the same setting clips between backward and
  step.
\<close>

theorem generator_step_never_clips:
  "GraphDIT_train_epoch (ext\<lparr>clip_grad_norm := f\<rparr>) (self\<lparr>grad_clip_value := c\<rparr>)
       opt loader w
     = GraphDIT_train_epoch ext self opt loader w
   \<and> GraphDIT_train_epoch recording_generator_ext
       (configured_generator\<lparr>grad_clip_value := Some 1\<rparr>)
       (fst (setup_optimizers (configured_generator\<lparr>grad_clip_value := Some 1\<rparr>))) [1] []
     = Inr ([Finite 1], [TrainMode, ZeroGrad, Randint, ComputeLoss, Backward, OptimizerStep])
   \<and> ContextPred_train_epoch recording_encoder_ext
       (default_encoder\<lparr>grad_clip_value := Some 1\<rparr>)
       (fst (setup_optimizers (default_encoder\<lparr>grad_clip_value := Some 1\<rparr>))) [[''C'']] []
     = ([Finite 1],
        [TrainMode, ZeroGrad, ComputeLoss, Backward, ClipGradNorm 1, OptimizerStep])"
proof (intro conjI)
  show "GraphDIT_train_epoch (ext\<lparr>clip_grad_norm := f\<rparr>) (self\<lparr>grad_clip_value := c\<rparr>)
       opt loader w
     = GraphDIT_train_epoch ext self opt loader w"
    by (simp add: GraphDIT_train_epoch_def GraphDIT_train_batches_ignore_clip Let_def
          split: option.splits)
  show "GraphDIT_train_epoch recording_generator_ext
       (configured_generator\<lparr>grad_clip_value := Some 1\<rparr>)
       (fst (setup_optimizers (configured_generator\<lparr>grad_clip_value := Some 1\<rparr>))) [1] []
     = Inr ([Finite 1], [TrainMode, ZeroGrad, Randint, ComputeLoss, Backward, OptimizerStep])"
    by (simp add: GraphDIT_train_epoch_def recording_generator_ext_def
          configured_generator_def example_info_def apply_noise_def Let_def)
  show "ContextPred_train_epoch recording_encoder_ext
       (default_encoder\<lparr>grad_clip_value := Some 1\<rparr>)
       (fst (setup_optimizers (default_encoder\<lparr>grad_clip_value := Some 1\<rparr>))) [[''C'']] []
     = ([Finite 1],
        [TrainMode, ZeroGrad, ComputeLoss, Backward, ClipGradNorm 1, OptimizerStep])"
    by (simp add: ContextPred_train_epoch_def recording_encoder_ext_def
          default_encoder_def Let_def)
qed

section \<open>The unbound name in the denoising step\<close>

lemma text_embedding_unbound: "map_of module_globals ''text_embedding'' = None"
  by (simp add: module_globals_def)

lemma step_fails:
  "sample_p_zs_given_zt module_globals ext self s t Xt Et y nm w =
     (case noise_schedule self of None \<Rightarrow> Inl (AttributeError ''noise_schedule'')
      | Some ns \<Rightarrow> Inl (NameError ''text_embedding''))"
  by (simp add: sample_p_zs_given_zt_def text_embedding_unbound Let_def split: option.splits)

text \<open>
  C6. With the global names that the module binds, no call of \<^verbatim>\<open>sample_p_zs_given_zt\<close>
  returns a sample: line 493 raises the NameError for \<^verbatim>\<open>text_embedding\<close> whenever the
  lines before it succeed (the estimator has its noise schedule), and so the loop of
  \<^verbatim>\<open>generate\<close> returns from no run that enters its body.
\<close>

theorem sample_p_zs_given_zt_unbound_name:
  "(\<forall>r. sample_p_zs_given_zt module_globals ext self s t Xt Et y nm w \<noteq> Inr r)
   \<and> (noise_schedule self \<noteq> None \<longrightarrow>
        sample_p_zs_given_zt module_globals ext self s t Xt Et y nm w
          = Inl (NameError ''text_embedding''))
   \<and> (\<forall>r. denoise_loop module_globals ext self k nm (s_int # rest) X E y latest w \<noteq> Inr r)"
  by (auto simp add: step_fails Let_def split: option.splits)

theorem sample_p_zs_given_zt_unbound_name_witness:
  "noise_schedule configured_generator \<noteq> None
   \<and> sample_p_zs_given_zt module_globals recording_generator_ext configured_generator
        [1 / 2] [1] [[[1, 0]]] [[[[1, 0]]]] [[0]] [[True]] []
      = Inl (NameError ''text_embedding'')"
  using sample_p_zs_given_zt_unbound_name
    [of recording_generator_ext configured_generator "[1 / 2]" "[1]" "[[[1, 0]]]"
        "[[[[1, 0]]]]" "[[0]]" "[[True]]" "[]"]
  by (simp add: configured_generator_def)

section \<open>The denoising loop of generate\<close>

lemma generate_never_returns:
  "generate module_globals ext self labels num_node w \<noteq> Inr r"
proof (cases "initial_noise ext self labels num_node w")
  case (Inl e)
  then show ?thesis by (simp add: generate_def and_then_def)
next
  case (Inr v)
  obtain nn nm X E w1 where v: "v = (nn, nm, X, E, w1)" by (cases v)
  show ?thesis
  proof (cases "rev [0 ..< nat (timesteps self)]")
    case Nil
    then show ?thesis using Inr v by (simp add: generate_def and_then_def)
  next
    case (Cons s_int rest)
    then show ?thesis using Inr v
      by (simp add: generate_def and_then_def step_fails Let_def
            split: option.splits sum.splits)
  qed
qed

text \<open>
  C1. On a generator that is set up for two timesteps, and that has an atom decoder,
  \<^verbatim>\<open>generate\<close> ends in the NameError of the first denoising step: no step completes and
  the collapse of line 423 is not reached. With the global names that the module binds, no
  call of \<^verbatim>\<open>generate\<close> returns at all.
\<close>

theorem generate_stops_at_first_step:
  "generate module_globals recording_generator_ext
     (configured_generator\<lparr>atom_decoder := Some [''C'', ''N'']\<rparr>) [[1 / 2]] (Some [2]) []
   = Inl (NameError ''text_embedding'')
   \<and> (\<forall>r. generate module_globals ext self labels num_node w \<noteq> Inr r)"
  using generate_never_returns[of ext self labels num_node w]
  by (simp add: generate_def initial_noise_def and_then_def step_fails Let_def
        configured_generator_def recording_generator_ext_def symmetric_edges_def
        transpose_nodes_def upt_rec)

section \<open>The configuration checks of generate\<close>

text \<open>
  C4. \<^verbatim>\<open>setup_diffusion_params\<close> succeeds on the example checkpoint, and \<^verbatim>\<open>generate\<close> on
  the generator it returns still raises the configuration error for the atom decoder; on
  the generator without the setup it raises the one for the limit distribution.
\<close>

theorem generate_after_setup_lacks_atom_decoder:
  "setup_diffusion_params small_generator (Checkpoint example_info 2 2)
     = Inr configured_generator
   \<and> generate module_globals recording_generator_ext configured_generator
       [[1 / 2]] (Some [2]) [] = Inl atom_decoder_missing
   \<and> generate module_globals recording_generator_ext small_generator
       [[1 / 2]] (Some [2]) [] = Inl limit_dist_missing"
  by (simp add: setup_diffusion_params_def get_diffusion_params_def small_generator_def
      default_generator_def example_info_def configured_generator_def div_by_sum_def
      index_select_def sum_dim1_def Let_def generate_def initial_noise_def and_then_def)

section \<open>The timesteps of apply_noise\<close>

lemma normalized_range:
  assumes "1 \<le> T" "0 \<le> t" "t \<le> T"
  shows "0 \<le> normalized_t T t" "normalized_t T t \<le> 1"
    "normalized_s T t = normalized_t T t - 1 / real_of_int T"
    "- (1 / real_of_int T) \<le> normalized_s T t"
    "normalized_s T t \<le> 1 - 1 / real_of_int T"
    "normalized_s T t < 0 \<longleftrightarrow> t = 0"
  using assms
  by (auto simp add: normalized_t_def normalized_s_def field_simps)

lemma normalized_t_fun: "normalized_t T = (\<lambda>t. real_of_int t / real_of_int T)"
  by (rule ext) (simp add: normalized_t_def)

lemma normalized_s_fun: "normalized_s T = (\<lambda>t. (real_of_int t - 1) / real_of_int T)"
  by (rule ext) (simp add: normalized_s_def)

lemma recording_randint_contract: "randint_contract recording_generator_ext"
  by (simp add: randint_contract_def recording_generator_ext_def list_all_length)

lemma apply_noise_run:
  "apply_noise recording_generator_ext configured_generator
      [[[1, 0]]] [[[[1, 0]]]] [[0]] [[True]] []
   = Inr (\<lparr>t_int = [0], t_float = [0], beta_t = [0], alpha_s_bar = [- (1 / 2)],
           alpha_t_bar = [0], X_t = [[[1, 0]]], E_t = [[[[1, 0]]]], y_t = [[0]],
           batch_node_mask = [[True]]\<rparr>, [Randint])"
  by (simp add: apply_noise_def recording_generator_ext_def configured_generator_def Let_def)

text \<open>
  C7, as stated, fails: when \<^verbatim>\<open>torch.randint\<close> draws 0 (with two timesteps), the noise
  schedule is handed \<open>s / T = -1/2\<close> for \<^verbatim>\<open>alpha_s_bar\<close>, which is outside [0, 1].
\<close>

theorem apply_noise_negative_s:
  "apply_noise recording_generator_ext configured_generator
      [[[1, 0]]] [[[[1, 0]]]] [[0]] [[True]] []
   = Inr (\<lparr>t_int = [0], t_float = [0], beta_t = [0], alpha_s_bar = [- (1 / 2)],
           alpha_t_bar = [0], X_t = [[[1, 0]]], E_t = [[[[1, 0]]]], y_t = [[0]],
           batch_node_mask = [[True]]\<rparr>, [Randint])
   \<and> randint_contract recording_generator_ext
   \<and> normalized_s (timesteps configured_generator) 0 < 0"
  using apply_noise_run recording_randint_contract
  by (simp add: configured_generator_def normalized_s_def)

text \<open>
  C7, amended. For \<open>T \<ge> 1\<close> timesteps, whenever \<^verbatim>\<open>apply_noise\<close> returns: one integer
  \<open>t\<close> per batch entry is drawn from 0, ..., T; \<^verbatim>\<open>t_int\<close> holds them; the noise schedule
  gets \<open>t / T\<close>, which lies in [0, 1], for \<^verbatim>\<open>beta_t\<close> and \<^verbatim>\<open>alpha_t_bar\<close>, and
  \<open>(t - 1) / T = t / T - 1 / T\<close> for \<^verbatim>\<open>alpha_s_bar\<close>, which is negative exactly for
  \<open>t = 0\<close>.
\<close>

theorem apply_noise_timesteps:
  assumes "randint_contract ext" and "1 \<le> timesteps self"
    and "apply_noise ext self X E y nm w = Inr (noisy, w')"
  shows "length (timestep_draw ext self X w) = length X
    \<and> list_all (\<lambda>t. 0 \<le> t \<and> t \<le> timesteps self
          \<and> 0 \<le> normalized_t (timesteps self) t \<and> normalized_t (timesteps self) t \<le> 1
          \<and> normalized_s (timesteps self) t
              = normalized_t (timesteps self) t - 1 / real_of_int (timesteps self)
          \<and> (normalized_s (timesteps self) t < 0 \<longleftrightarrow> t = 0))
        (timestep_draw ext self X w)
    \<and> t_int noisy = map real_of_int (timestep_draw ext self X w)
    \<and> t_float noisy = map (normalized_t (timesteps self)) (timestep_draw ext self X w)
    \<and> (\<exists>ns. noise_schedule self = Some ns
          \<and> beta_t noisy = noise_schedule_call ext ns
               (map (normalized_t (timesteps self)) (timestep_draw ext self X w))
          \<and> alpha_t_bar noisy = get_alpha_bar ext ns
               (map (normalized_t (timesteps self)) (timestep_draw ext self X w))
          \<and> alpha_s_bar noisy = get_alpha_bar ext ns
               (map (normalized_s (timesteps self)) (timestep_draw ext self X w)))"
proof -
  let ?T = "timesteps self"
  let ?draw = "timestep_draw ext self X w"
  have lt: "(0::int) < ?T + 1" using assms(2) by simp
  from assms(1) lt have len: "length ?draw = length X"
    and rng: "list_all (\<lambda>v. 0 \<le> v \<and> v < ?T + 1) ?draw"
    unfolding randint_contract_def timestep_draw_def by blast+
  have rng': "list_all (\<lambda>t. 0 \<le> t \<and> t \<le> ?T
          \<and> 0 \<le> normalized_t ?T t \<and> normalized_t ?T t \<le> 1
          \<and> normalized_s ?T t = normalized_t ?T t - 1 / real_of_int ?T
          \<and> (normalized_s ?T t < 0 \<longleftrightarrow> t = 0)) ?draw"
    using rng assms(2) normalized_range[of ?T]
    by (auto simp add: list_all_iff)
  obtain d w1 where dr: "randint ext 0 (?T + 1) (length X) w = (d, w1)"
    by (cases "randint ext 0 (?T + 1) (length X) w")
  then have d: "?draw = d" by (simp add: timestep_draw_def)
  from assms(3) dr obtain ns where ns: "noise_schedule self = Some ns"
    using lt by (cases "noise_schedule self") (auto simp add: apply_noise_def)
  from assms(3) dr ns lt
  have fields: "t_int noisy = map real_of_int d"
    "t_float noisy = map (normalized_t ?T) d"
    "beta_t noisy = noise_schedule_call ext ns (map (normalized_t ?T) d)"
    "alpha_t_bar noisy = get_alpha_bar ext ns (map (normalized_t ?T) d)"
    "alpha_s_bar noisy = get_alpha_bar ext ns (map (normalized_s ?T) d)"
    by (auto simp add: apply_noise_def Let_def normalized_t_fun normalized_s_fun comp_def
          split: option.splits sum.splits)
  show ?thesis
    using len rng' ns fields d by simp
qed

theorem apply_noise_timesteps_witness:
  "randint_contract recording_generator_ext
   \<and> 1 \<le> timesteps configured_generator
   \<and> timestep_draw recording_generator_ext configured_generator [[[1, 0]]] [] = [0]
   \<and> normalized_t (timesteps configured_generator) 0 = 0
   \<and> normalized_s (timesteps configured_generator) 0 = - (1 / 2)
   \<and> (\<exists>noisy. apply_noise recording_generator_ext configured_generator
                 [[[1, 0]]] [[[[1, 0]]]] [[0]] [[True]] [] = Inr (noisy, [Randint])
        \<and> t_int noisy = [0] \<and> t_float noisy = [0] \<and> alpha_s_bar noisy = [- (1 / 2)])"
proof -
  have T: "1 \<le> timesteps configured_generator"
    by (simp add: configured_generator_def)
  from apply_noise_timesteps[OF recording_randint_contract T apply_noise_run]
  show ?thesis
    using recording_randint_contract T apply_noise_run
    by (simp add: timestep_draw_def recording_generator_ext_def configured_generator_def
          normalized_t_def normalized_s_def)
qed

section \<open>The floor for rows that sum to zero\<close>

lemma floor_value_pos: "0 < floor_value"
  by (simp add: floor_value_def)

lemma floor_zero_row_zero:
  "sum_list u = 0 \<Longrightarrow> floor_zero_row u = replicate (length u) floor_value"
  by (simp add: floor_zero_row_def map_replicate_const)

lemma floor_zero_row_nonzero: "sum_list u \<noteq> 0 \<Longrightarrow> floor_zero_row u = u"
  by (simp add: floor_zero_row_def)

lemma floor_zero_row_sum: "u \<noteq> [] \<Longrightarrow> sum_list (floor_zero_row u) \<noteq> 0"
  using floor_value_pos
  by (auto simp add: floor_zero_row_def sum_list_triv)

lemma sum_list_div_by_sum: "sum_list v \<noteq> 0 \<Longrightarrow> sum_list (div_by_sum v) = 1"
proof -
  assume nz: "sum_list v \<noteq> 0"
  have "sum_list (div_by_sum v) = sum_list (map (\<lambda>x. x * (1 / sum_list v)) v)"
    by (simp add: div_by_sum_def)
  also have "\<dots> = sum_list v * (1 / sum_list v)"
    using sum_list_mult_const[of "\<lambda>x. x" "1 / sum_list v" v] by simp
  finally show ?thesis using nz by simp
qed

lemma div_by_sum_replicate:
  "c \<noteq> 0 \<Longrightarrow> div_by_sum (replicate k c) = replicate k (1 / real k)"
  by (cases "k = 0") (auto simp add: div_by_sum_def sum_list_replicate)

lemma floor_value_nonzero: "floor_value \<noteq> 0"
  by (simp add: floor_value_def)

lemma get_prob_run_zero_row:
  "get_prob recording_generator_ext configured_generator 1 1 [[[0, 0]]] [[[[0, 0]]]]
     [1] [1 / 2] [1] (example_noisy [[[0, 0]]] [[[[0, 0]]]]) (TensorOn CPU) False []
   = Inr (([[[1 / 2, 1 / 2]]], [[[[1 / 2, 1 / 2]]]]), [Network False])"
  by (simp add: get_prob_def unnormalized_prob_def normalized_prob_def and_then_def
        recording_generator_ext_def configured_generator_def small_generator_def
        default_generator_def example_noisy_def
        reshape3_def reshape4_def cat_last_def slice_to_def slice_from_def size3_def
        size2_def size1_def floor_zero_row_def floor_value_def div_by_sum_def Let_def)

text \<open>
  C5. In \<^verbatim>\<open>get_prob\<close>, a row of the unnormalized posterior that sums to exactly zero gets
  the floor \<open>1e-5\<close> in every entry (and so becomes the uniform distribution), every other
  row is left as it is, and after that no row with an entry sums to zero: the division of
  lines 483-488 is never by zero, and every such row of the result sums to 1. This is what
  \<^verbatim>\<open>get_prob\<close> does to each row of the node and of the edge posterior, and nothing in
  it raises: \<^verbatim>\<open>get_prob\<close> fails only where lines 456-478 or the reshape of line 489
  fail.
\<close>

theorem zero_sum_rows_get_floor:
  "(sum_list u = 0 \<longrightarrow>
      floor_zero_row u = replicate (length u) floor_value
      \<and> div_by_sum (floor_zero_row u) = replicate (length u) (1 / real (length u)))
   \<and> (sum_list u \<noteq> 0 \<longrightarrow> floor_zero_row u = u)
   \<and> (u \<noteq> [] \<longrightarrow>
        sum_list (floor_zero_row u) \<noteq> 0 \<and> sum_list (div_by_sum (floor_zero_row u)) = 1)
   \<and> normalized_prob uX uE
       = (map (map (\<lambda>row. div_by_sum (floor_zero_row row))) uX,
          map (map (\<lambda>row. div_by_sum (floor_zero_row row))) uE)
   \<and> (unnormalized_prob ext self bs n Xt Et bt asb atb noisy te unc w = Inr (uX, uE, c, w1) \<longrightarrow>
        get_prob ext self bs n Xt Et bt asb atb noisy te unc w
          = and_then (reshape4 bs n n c (concat (concat (snd (normalized_prob uX uE)))))
              (\<lambda>prob_E. Inr ((fst (normalized_prob uX uE), prob_E), w1)))"
proof (intro conjI impI)
  show "normalized_prob uX uE
       = (map (map (\<lambda>row. div_by_sum (floor_zero_row row))) uX,
          map (map (\<lambda>row. div_by_sum (floor_zero_row row))) uE)"
    by (simp add: normalized_prob_def Let_def comp_def)
next
  assume "unnormalized_prob ext self bs n Xt Et bt asb atb noisy te unc w = Inr (uX, uE, c, w1)"
  then show "get_prob ext self bs n Xt Et bt asb atb noisy te unc w
          = and_then (reshape4 bs n n c (concat (concat (snd (normalized_prob uX uE)))))
              (\<lambda>prob_E. Inr ((fst (normalized_prob uX uE), prob_E), w1))"
    by (cases "normalized_prob uX uE") (simp add: get_prob_def and_then_def)
qed (simp_all add: floor_zero_row_zero floor_zero_row_nonzero floor_zero_row_sum
       sum_list_div_by_sum div_by_sum_replicate floor_value_nonzero)

theorem zero_sum_rows_get_floor_witness:
  "sum_list [0, 0 :: real] = 0
   \<and> floor_zero_row [0, 0] = [1 / 100000, 1 / 100000]
   \<and> div_by_sum (floor_zero_row [0, 0]) = [1 / 2, 1 / 2]
   \<and> sum_list (div_by_sum (floor_zero_row [0, 0])) = 1
   \<and> floor_zero_row [1, 3] = [1, 3]
   \<and> get_prob recording_generator_ext configured_generator 1 1 [[[0, 0]]] [[[[0, 0]]]]
        [1] [1 / 2] [1] (example_noisy [[[0, 0]]] [[[[0, 0]]]]) (TensorOn CPU) False []
      = Inr (([[[1 / 2, 1 / 2]]], [[[[1 / 2, 1 / 2]]]]), [Network False])"
proof -
  note rows = zero_sum_rows_get_floor[of "[0, 0]" "[]" "[]" recording_generator_ext
      configured_generator 1 1 "[[[0, 0]]]" "[[[[0, 0]]]]" "[1]" "[1 / 2]" "[1]"
      "example_noisy [[[0, 0]]] [[[[0, 0]]]]" "TensorOn CPU" False "[]" 0 "[]"]
  have z: "sum_list [0, 0 :: real] = 0" by simp
  from rows[THEN conjunct1, rule_format, OF z, THEN conjunct1]
  have a: "floor_zero_row [0, 0] = [1 / 100000, 1 / 100000]"
    by (simp add: floor_value_def numeral_2_eq_2)
  from rows[THEN conjunct1, rule_format, OF z, THEN conjunct2]
  have a': "div_by_sum (floor_zero_row [0, 0]) = [1 / 2, 1 / 2]"
    by (simp add: numeral_2_eq_2)
  from rows[THEN conjunct2, THEN conjunct2, THEN conjunct1]
  have b: "sum_list (div_by_sum (floor_zero_row [0, 0])) = 1" by simp
  have c: "floor_zero_row [1, 3] = [1, 3]"
    using zero_sum_rows_get_floor[of "[1, 3]", THEN conjunct2, THEN conjunct1] by simp
  show ?thesis using z a a' b c get_prob_run_zero_row by simp
qed

section \<open>Classifier-free guidance\<close>

lemma get_prob_state:
  "get_prob ext self bs n Xt Et bt asb atb noisy te unc w = Inr (r, w') \<Longrightarrow>
   w' = snd (network ext noisy unc w)"
  by (auto simp add: get_prob_def unnormalized_prob_def and_then_def Let_def
        split: sum.splits prod.splits option.splits)

lemma sum_list_renormalize:
  assumes "floor_value \<le> sum_list row"
  shows "sum_list (renormalize row) = 1"
proof -
  have pos: "0 < sum_list row" using assms floor_value_pos by linarith
  have "sum_list (renormalize row) = sum_list (map (\<lambda>x. x * (1 / sum_list row)) row)"
    using assms by (simp add: renormalize_def max_def)
  also have "\<dots> = sum_list row * (1 / sum_list row)"
    using sum_list_mult_const[of "\<lambda>x. x" "1 / sum_list row" row] by simp
  finally show ?thesis using pos by simp
qed

lemma guided_prob_guided:
  assumes "guide_scale self = Some g" and "g \<noteq> 1"
    and "get_prob ext self bs n Xt Et bt asb atb noisy te False w = Inr ((pX, pE), w1)"
    and "get_prob ext self bs n Xt Et bt asb atb noisy te True w1 = Inr ((uX, uE), w2)"
  shows "guided_prob ext self bs n Xt Et bt asb atb noisy te w
        = Inr ((map2 (map2 (guide_row g)) uX pX,
                map2 (map2 (map2 (guide_row g))) uE pE), w2)"
  using assms by (simp add: guided_prob_def and_then_def)

lemmas run_defs =
  get_prob_def unnormalized_prob_def normalized_prob_def and_then_def
  recording_generator_ext_def configured_generator_def small_generator_def
  default_generator_def example_noisy_def
  reshape3_def reshape4_def cat_last_def slice_to_def slice_from_def size3_def
  size2_def size1_def floor_zero_row_def floor_value_def div_by_sum_def Let_def

lemma get_prob_run_cond:
  "get_prob recording_generator_ext configured_generator 1 1 [[[1, 0]]] [[[[1, 0]]]]
     [1] [1 / 2] [1] (example_noisy [[[1, 0]]] [[[[1, 0]]]]) (TensorOn CPU) False w
   = Inr (([[[1, 0]]], [[[[1, 0]]]]), w @ [Network False])"
  by (simp add: run_defs)

lemma get_prob_run_uncond:
  "get_prob recording_generator_ext configured_generator 1 1 [[[1, 0]]] [[[[1, 0]]]]
     [1] [1 / 2] [1] (example_noisy [[[1, 0]]] [[[[1, 0]]]]) (TensorOn CPU) True w
   = Inr (([[[0, 1]]], [[[[0, 1]]]]), w @ [Network True])"
  by (simp add: run_defs)

lemma guide_row_run: "guide_row 2 [0, 1] [1, 0] = [0, 0]"
  by (simp add: guide_row_def renormalize_def reweight_def float_pow_def floor_value_def)

lemma configured_guide_scale: "guide_scale configured_generator = Some 2"
  by (simp add: configured_generator_def small_generator_def default_generator_def)

lemma guided_prob_run:
  "guided_prob recording_generator_ext configured_generator 1 1 [[[1, 0]]] [[[[1, 0]]]]
     [1] [1 / 2] [1] (example_noisy [[[1, 0]]] [[[[1, 0]]]]) (TensorOn CPU) []
   = Inr (([[[0, 0]]], [[[[0, 0]]]]), [Network False, Network True])"
  using guided_prob_guided[OF configured_guide_scale _ get_prob_run_cond get_prob_run_uncond,
          of "[]"]
  by (simp add: guide_row_run)

lemma get_prob_run_masked:
  "get_prob recording_generator_ext configured_generator 1 1 [[[0, 0]]] [[[[0, 0]]]]
     [1] [1 / 2] [1] (example_noisy [[[0, 0]]] [[[[0, 0]]]]) (TensorOn CPU) unc w
   = Inr (([[[1 / 2, 1 / 2]]], [[[[1 / 2, 1 / 2]]]]), w @ [Network unc])"
  by (simp add: run_defs)

lemma get_prob_run_unguided:
  "get_prob recording_generator_ext (configured_generator\<lparr>guide_scale := Some 1\<rparr>) 1 1
     [[[1, 0]]] [[[[1, 0]]]]
     [1] [1 / 2] [1] (example_noisy [[[1, 0]]] [[[[1, 0]]]]) (TensorOn CPU) False []
   = Inr (([[[1, 0]]], [[[[1, 0]]]]), [Network False])"
  by (simp add: run_defs)

lemma guide_row_uniform: "guide_row 2 [1 / 2, 1 / 2] [1 / 2, 1 / 2] = [1 / 2, 1 / 2]"
  by (simp add: guide_row_def renormalize_def reweight_def float_pow_def floor_value_def)

lemma reweight_uniform: "reweight 2 [1 / 2, 1 / 2] [1 / 2, 1 / 2] = [1 / 2, 1 / 2]"
  by (simp add: reweight_def float_pow_def floor_value_def)

text \<open>
  C2, as stated, fails: with \<^verbatim>\<open>guide_scale = 2\<close>, a conditioned row \<open>[1, 0]\<close> and an
  unconditioned row \<open>[0, 1]\<close>, the reweighted row is \<open>[0, 0]\<close>, the divisor is the clamp
  \<open>1e-5\<close>, and the row that results sums to 0, not to 1.
\<close>

theorem guidance_row_sums_to_zero:
  "guide_scale configured_generator = Some 2
   \<and> guided_prob recording_generator_ext configured_generator 1 1 [[[1, 0]]] [[[[1, 0]]]]
        [1] [1 / 2] [1] (example_noisy [[[1, 0]]] [[[[1, 0]]]]) (TensorOn CPU) []
      = Inr (([[[0, 0]]], [[[[0, 0]]]]), [Network False, Network True])
   \<and> sum_list [0, 0 :: real] \<noteq> 1"
  using guided_prob_run configured_guide_scale by simp

text \<open>
  C2, amended. If \<^verbatim>\<open>guide_scale\<close> is \<^verbatim>\<open>None\<close> or 1, the probabilities are those of the
  one conditioned call of \<^verbatim>\<open>get_prob\<close>, and the network has run once. Otherwise
  \<^verbatim>\<open>get_prob\<close> runs a second time, unconditioned (the network runs twice, conditioned
  first), and each node and edge row becomes
  \<open>uncond * (cond / max uncond 1e-5) ** guide_scale\<close> divided by \<open>max\<close> of its sum and
  \<open>1e-5\<close>; a row whose reweighted sum is at least \<open>1e-5\<close> then sums to 1.
\<close>

theorem guidance_reweights:
  "(guide_scale self = None \<or> guide_scale self = Some 1 \<longrightarrow>
      guided_prob ext self bs n Xt Et bt asb atb noisy te w
        = get_prob ext self bs n Xt Et bt asb atb noisy te False w
      \<and> (\<forall>r w'. guided_prob ext self bs n Xt Et bt asb atb noisy te w = Inr (r, w') \<longrightarrow>
            w' = snd (network ext noisy False w)))
   \<and> (guide_scale self = Some g \<and> g \<noteq> 1
        \<and> get_prob ext self bs n Xt Et bt asb atb noisy te False w = Inr ((pX, pE), w1)
        \<and> get_prob ext self bs n Xt Et bt asb atb noisy te True w1 = Inr ((uX, uE), w2) \<longrightarrow>
      guided_prob ext self bs n Xt Et bt asb atb noisy te w
        = Inr ((map2 (map2 (guide_row g)) uX pX,
                map2 (map2 (map2 (guide_row g))) uE pE), w2)
      \<and> w1 = snd (network ext noisy False w)
      \<and> w2 = snd (network ext noisy True w1))
   \<and> guide_row g uncon cond
       = map (\<lambda>v. v / max (sum_list (reweight g uncon cond)) floor_value)
           (reweight g uncon cond)
   \<and> reweight g uncon cond
       = map2 (\<lambda>u p. u * float_pow (p / max u floor_value) g) uncon cond
   \<and> (floor_value \<le> sum_list (reweight g uncon cond) \<longrightarrow>
        sum_list (guide_row g uncon cond) = 1)"
proof (intro conjI impI allI)
  assume a: "guide_scale self = None \<or> guide_scale self = Some 1"
  then show eq: "guided_prob ext self bs n Xt Et bt asb atb noisy te w
        = get_prob ext self bs n Xt Et bt asb atb noisy te False w"
    by (cases "get_prob ext self bs n Xt Et bt asb atb noisy te False w")
       (auto simp add: guided_prob_def and_then_def)
  fix r w'
  assume "guided_prob ext self bs n Xt Et bt asb atb noisy te w = Inr (r, w')"
  with eq show "w' = snd (network ext noisy False w)"
    using get_prob_state by metis
next
  assume b: "guide_scale self = Some g \<and> g \<noteq> 1
        \<and> get_prob ext self bs n Xt Et bt asb atb noisy te False w = Inr ((pX, pE), w1)
        \<and> get_prob ext self bs n Xt Et bt asb atb noisy te True w1 = Inr ((uX, uE), w2)"
  then show "guided_prob ext self bs n Xt Et bt asb atb noisy te w
        = Inr ((map2 (map2 (guide_row g)) uX pX,
                map2 (map2 (map2 (guide_row g))) uE pE), w2)"
    by (simp add: guided_prob_guided)
  from b show "w1 = snd (network ext noisy False w)"
    using get_prob_state by metis
  from b show "w2 = snd (network ext noisy True w1)"
    using get_prob_state by metis
next
  show "guide_row g uncon cond
       = map (\<lambda>v. v / max (sum_list (reweight g uncon cond)) floor_value)
           (reweight g uncon cond)"
    by (simp add: guide_row_def renormalize_def)
  show "reweight g uncon cond
       = map2 (\<lambda>u p. u * float_pow (p / max u floor_value) g) uncon cond"
    by (simp add: reweight_def)
next
  assume "floor_value \<le> sum_list (reweight g uncon cond)"
  then show "sum_list (guide_row g uncon cond) = 1"
    by (simp add: guide_row_def sum_list_renormalize)
qed

theorem guidance_reweights_witness:
  "guide_scale configured_generator = Some 2
   \<and> guided_prob recording_generator_ext configured_generator 1 1 [[[0, 0]]] [[[[0, 0]]]]
        [1] [1 / 2] [1] (example_noisy [[[0, 0]]] [[[[0, 0]]]]) (TensorOn CPU) []
      = Inr (([[[1 / 2, 1 / 2]]], [[[[1 / 2, 1 / 2]]]]), [Network False, Network True])
   \<and> guided_prob recording_generator_ext (configured_generator\<lparr>guide_scale := Some 1\<rparr>) 1 1
        [[[1, 0]]] [[[[1, 0]]]]
        [1] [1 / 2] [1] (example_noisy [[[1, 0]]] [[[[1, 0]]]]) (TensorOn CPU) []
      = Inr (([[[1, 0]]], [[[[1, 0]]]]), [Network False])
   \<and> floor_value \<le> sum_list (reweight 2 [1 / 2, 1 / 2] [1 / 2, 1 / 2])
   \<and> sum_list (guide_row 2 [1 / 2, 1 / 2] [1 / 2, 1 / 2]) = 1"
proof -
  have two: "(2::real) \<noteq> 1" by simp
  have le: "floor_value \<le> sum_list (reweight 2 [1 / 2, 1 / 2] [1 / 2, 1 / 2])"
    by (simp add: reweight_uniform floor_value_def)
  note guided = guidance_reweights
    [of configured_generator recording_generator_ext 1 1 "[[[0, 0]]]" "[[[[0, 0]]]]" "[1]"
        "[1 / 2]" "[1]" "example_noisy [[[0, 0]]] [[[[0, 0]]]]" "TensorOn CPU" "[]" 2
        "[[[1 / 2, 1 / 2]]]" "[[[[1 / 2, 1 / 2]]]]" "[Network False]"
        "[[[1 / 2, 1 / 2]]]" "[[[[1 / 2, 1 / 2]]]]" "[Network False, Network True]"
        "[1 / 2, 1 / 2]" "[1 / 2, 1 / 2]"]
  note plain = guidance_reweights
    [of "configured_generator\<lparr>guide_scale := Some 1\<rparr>" recording_generator_ext 1 1
        "[[[1, 0]]]" "[[[[1, 0]]]]" "[1]" "[1 / 2]" "[1]"
        "example_noisy [[[1, 0]]] [[[[1, 0]]]]" "TensorOn CPU" "[]"]
  have a: "guided_prob recording_generator_ext configured_generator 1 1 [[[0, 0]]]
        [[[[0, 0]]]] [1] [1 / 2] [1] (example_noisy [[[0, 0]]] [[[[0, 0]]]]) (TensorOn CPU) []
      = Inr (([[[1 / 2, 1 / 2]]], [[[[1 / 2, 1 / 2]]]]), [Network False, Network True])"
    using guided[THEN conjunct2, THEN conjunct1] configured_guide_scale two
      get_prob_run_masked[of False "[]"] get_prob_run_masked[of True "[Network False]"]
    by (simp add: guide_row_uniform)
  have b: "guided_prob recording_generator_ext (configured_generator\<lparr>guide_scale := Some 1\<rparr>)
        1 1 [[[1, 0]]] [[[[1, 0]]]]
        [1] [1 / 2] [1] (example_noisy [[[1, 0]]] [[[[1, 0]]]]) (TensorOn CPU) []
      = Inr (([[[1, 0]]], [[[[1, 0]]]]), [Network False])"
    using plain[THEN conjunct1] get_prob_run_unguided by simp
  have c: "sum_list (guide_row 2 [1 / 2, 1 / 2] [1 / 2, 1 / 2]) = 1"
    using guided[THEN conjunct2, THEN conjunct2, THEN conjunct2, THEN conjunct2] le by simp
  show ?thesis using a b c le configured_guide_scale by simp
qed

section \<open>Symmetry of the sampled edges\<close>

lemma fixed_point_member: "E = map f E \<Longrightarrow> M \<in> set E \<Longrightarrow> M = f M"
  by (metis in_set_conv_nth nth_map)

lemma symmetric_edges_entries:
  assumes "symmetric_edges E" and "M \<in> set E" and "i < length M" and "j < length M"
  shows "length (M ! i) = length M \<and> M ! i ! j = M ! j ! i"
proof -
  from assms(1,2) have M: "M = transpose_nodes M"
    unfolding symmetric_edges_def by (rule fixed_point_member)
  have row: "transpose_nodes M ! i = map (\<lambda>k. M ! k ! i) [0 ..< length M]"
    using assms(3) by (simp add: transpose_nodes_def)
  have "length (transpose_nodes M ! i) = length M" by (simp add: row)
  moreover have "transpose_nodes M ! i ! j = M ! j ! i"
    using assms(4) by (simp add: row)
  ultimately show ?thesis using M by simp
qed

lemma initial_noise_run:
  "initial_noise recording_generator_ext
     (configured_generator\<lparr>atom_decoder := Some [''C'', ''N'']\<rparr>) [[1 / 2]] (Some [2]) []
   = Inr ([2], [[True, True]], two_node_X, two_node_E, [SampleNoise])"
  by (simp add: initial_noise_def and_then_def Let_def configured_generator_def
        recording_generator_ext_def symmetric_edges_def transpose_nodes_def upt_rec
        two_node_X_def two_node_E_def)

lemma chunks_numeral:
  "chunks k (numeral m) xs = take k xs # chunks k (pred_numeral m) (drop k xs)"
  by (simp add: numeral_eq_Suc)

lemma get_prob_two_node_cond:
  "get_prob recording_generator_ext configured_generator 1 2 two_node_X two_node_E
     [1] [1 / 2] [1] two_node_noisy (TensorOn CPU) False w
   = Inr ((two_node_X, two_node_E), w @ [Network False])"
  by (simp add: run_defs two_node_X_def two_node_E_def two_node_noisy_def chunks_numeral)

lemma get_prob_two_node_uncond:
  "get_prob recording_generator_ext configured_generator 1 2 two_node_X two_node_E
     [1] [1 / 2] [1] two_node_noisy (TensorOn CPU) True w
   = Inr (([[[0, 1], [0, 1]]], [[[[0, 1], [0, 1]], [[0, 1], [0, 1]]]]), w @ [Network True])"
  by (simp add: run_defs two_node_X_def two_node_E_def two_node_noisy_def chunks_numeral)

lemma guided_prob_two_node:
  "guided_prob recording_generator_ext configured_generator 1 2 two_node_X two_node_E
     [1] [1 / 2] [1] two_node_noisy (TensorOn CPU) [SampleNoise]
   = Inr (([[[0, 0], [0, 0]]], [[[[0, 0], [0, 0]], [[0, 0], [0, 0]]]]),
          [SampleNoise, Network False, Network True])"
  using guided_prob_guided[OF configured_guide_scale _ get_prob_two_node_cond
          get_prob_two_node_uncond, of "[SampleNoise]"]
  by (simp add: guide_row_run two_node_X_def two_node_E_def)

lemma one_hot_two_node:
  "one_hot3 2 [[0, 0]] = Inr two_node_X"
  "one_hot4 2 [[[0, 0], [0, 0]]] = Inr two_node_E"
  by (simp_all add: one_hot3_def one_hot4_def one_hot_classes_def one_hot_row_def
        and_then_def two_node_X_def two_node_E_def upt_rec)

lemma symmetric_two_node: "symmetric_edges two_node_E"
  by (simp add: symmetric_edges_def transpose_nodes_def two_node_E_def upt_rec)

lemma step_run:
  "sample_p_zs_given_zt patched_globals recording_generator_ext configured_generator
     [1 / 2] [1] two_node_X two_node_E [[1 / 2]] [[True, True]] [SampleNoise]
   = Inr (PlaceHolder two_node_X two_node_E [[1 / 2]],
          [SampleNoise, Network False, Network True, SampleFeatures])"
proof -
  have ns: "noise_schedule configured_generator = Some (NoiseScheduleDiscrete 2)"
    and dims: "X_dim configured_generator = 2" "E_dim configured_generator = 2"
    by (simp_all add: configured_generator_def small_generator_def default_generator_def)
  have te: "map_of patched_globals ''text_embedding'' = Some (TensorOn CPU)"
    by (simp add: patched_globals_def)
  have len: "length two_node_X = 1" "size1 two_node_X = 2"
    by (simp_all add: two_node_X_def size1_def)
  have ext: "noise_schedule_call recording_generator_ext (NoiseScheduleDiscrete 2) [1] = [1]"
    "get_alpha_bar recording_generator_ext (NoiseScheduleDiscrete 2) [1 / 2] = [1 / 2]"
    "get_alpha_bar recording_generator_ext (NoiseScheduleDiscrete 2) [1] = [1]"
    "sample_discrete_features recording_generator_ext [[[0, 0], [0, 0]]]
       [[[[0, 0], [0, 0]], [[0, 0], [0, 0]]]] [[True, True]]
       [SampleNoise, Network False, Network True]
     = (([[0, 0]], [[[0, 0], [0, 0]]]),
        [SampleNoise, Network False, Network True, SampleFeatures])"
    "\<And>z m. mask recording_generator_ext z m = z"
    by (simp_all add: recording_generator_ext_def)
  have shapes: "shape3 two_node_X = shape3 two_node_X" "shape4 two_node_E = shape4 two_node_E"
    by simp_all
  show ?thesis
    unfolding sample_p_zs_given_zt_def Let_def ns te len ext option.case
      two_node_noisy_def[symmetric] guided_prob_two_node and_then_def sum.case prod.case
      dims one_hot_two_node
    using symmetric_two_node by simp
qed

text \<open>
  C3. The edge tensor with which \<^verbatim>\<open>generate\<close> enters its loop has passed the assertion
  of line 408, and every sample that \<^verbatim>\<open>sample_p_zs_given_zt\<close> returns is the mask of a
  one-hot edge tensor that has passed the assertion of line 516. A tensor that passes has a
  square table for each graph, with entry \<open>(i, j)\<close> equal to entry \<open>(j, i)\<close> for all nodes
  \<open>i\<close> and \<open>j\<close>. (A sampler that returns anything else ends the run in an AssertionError.)
\<close>

theorem sampled_edges_symmetric:
  "(symmetric_edges E \<and> M \<in> set E \<and> i < length M \<and> j < length M \<longrightarrow>
      length (M ! i) = length M \<and> M ! i ! j = M ! j ! i)
   \<and> (initial_noise ext self labels num_node w = Inr (counts, nm0, X0, E0, w0) \<longrightarrow>
        symmetric_edges E0)
   \<and> (sample_p_zs_given_zt globs ext self s t Xt Et properties nm w = Inr (out, w') \<longrightarrow>
        (\<exists>X_s E_s sampled_E.
            one_hot4 (E_dim self) sampled_E = Inr E_s
            \<and> symmetric_edges E_s
            \<and> out = mask ext (PlaceHolder X_s E_s properties) nm))"
proof (intro conjI impI)
  assume "symmetric_edges E \<and> M \<in> set E \<and> i < length M \<and> j < length M"
  then show "length (M ! i) = length M" and "M ! i ! j = M ! j ! i"
    using symmetric_edges_entries by blast+
next
  assume "initial_noise ext self labels num_node w = Inr (counts, nm0, X0, E0, w0)"
  then show "symmetric_edges E0"
    by (auto simp add: initial_noise_def and_then_def Let_def
          split: option.splits sum.splits prod.splits if_splits)
next
  assume "sample_p_zs_given_zt globs ext self s t Xt Et properties nm w = Inr (out, w')"
  then show "\<exists>X_s E_s sampled_E.
            one_hot4 (E_dim self) sampled_E = Inr E_s
            \<and> symmetric_edges E_s
            \<and> out = mask ext (PlaceHolder X_s E_s properties) nm"
    by (auto simp add: sample_p_zs_given_zt_def and_then_def Let_def
          split: option.splits sum.splits prod.splits if_splits)
qed

theorem sampled_edges_symmetric_witness:
  "initial_noise recording_generator_ext
     (configured_generator\<lparr>atom_decoder := Some [''C'', ''N'']\<rparr>) [[1 / 2]] (Some [2]) []
     = Inr ([2], [[True, True]], two_node_X, two_node_E, [SampleNoise])
   \<and> symmetric_edges two_node_E
   \<and> two_node_E ! 0 ! 0 ! 1 = two_node_E ! 0 ! 1 ! 0
   \<and> sample_p_zs_given_zt patched_globals recording_generator_ext configured_generator
        [1 / 2] [1] two_node_X two_node_E [[1 / 2]] [[True, True]] [SampleNoise]
      = Inr (PlaceHolder two_node_X two_node_E [[1 / 2]],
             [SampleNoise, Network False, Network True, SampleFeatures])"
proof -
  note inst = sampled_edges_symmetric
    [of two_node_E "two_node_E ! 0" 0 1 recording_generator_ext
        "configured_generator\<lparr>atom_decoder := Some [''C'', ''N'']\<rparr>" "[[1 / 2]]"
        "Some [2]" "[]" "[2]" "[[True, True]]" two_node_X two_node_E "[SampleNoise]"]
  from inst[THEN conjunct2, THEN conjunct1, rule_format, OF initial_noise_run]
  have sym: "symmetric_edges two_node_E" .
  have mem: "two_node_E ! 0 \<in> set two_node_E" "0 < length (two_node_E ! 0)"
    "1 < length (two_node_E ! 0)"
    by (simp_all add: two_node_E_def)
  from inst[THEN conjunct1, rule_format] sym mem
  have "two_node_E ! 0 ! 0 ! 1 = two_node_E ! 0 ! 1 ! 0" by blast
  with sym initial_noise_run step_run show ?thesis by simp
qed

end
